theory Spec2Isabelle
  imports Main "HOL-Library.Word"
begin

unbundle bit_operations_syntax

section \<open>Python values used by remind.py\<close>

text \<open>
  The module works on Python strings, lists, dates and dictionaries. Strings are
  modelled as \<open>string\<close>: a list of characters with code points below 256. Every raise
  of the interpreter is a value of \<open>error\<close>, and a function that can raise returns
  \<open>error + 'a\<close> with the exception on the left. \<open>NeverReturns\<close> is not an exception:
  it stands for a call that does not come back (a wait for a lock that is held, a loop
  over a rule without end).
\<close>

datatype error =
  ValueError | IndexError | OverflowError | TypeError | AttributeError | IOError
  | NeverReturns

subsection \<open>String methods\<close>

fun startswith :: "string \<Rightarrow> string \<Rightarrow> bool" where
  "startswith s [] = True"
| "startswith [] (p # ps) = False"
| "startswith (c # cs) (p # ps) = (c = p \<and> startswith cs ps)"

text \<open>\<open>s.find(sub)\<close> and \<open>s.rfind(sub)\<close>: the lowest and the highest index where
  \<open>sub\<close> starts, \<open>-1\<close> when there is none.\<close>

fun py_find :: "string \<Rightarrow> string \<Rightarrow> int" where
  "py_find [] sub = (if sub = [] then 0 else -1)"
| "py_find (c # cs) sub =
     (if startswith (c # cs) sub then 0
      else (let i = py_find cs sub in if i < 0 then -1 else i + 1))"

fun py_rfind :: "string \<Rightarrow> string \<Rightarrow> int" where
  "py_rfind [] sub = (if sub = [] then 0 else -1)"
| "py_rfind (c # cs) sub =
     (let i = py_rfind cs sub in
      if 0 \<le> i then i + 1 else if startswith (c # cs) sub then 0 else -1)"

text \<open>\<open>sub in s\<close> on strings.\<close>

definition py_in :: "string \<Rightarrow> string \<Rightarrow> bool" where
  "py_in sub s = (0 \<le> py_find s sub)"

text \<open>\<open>s.replace(old, new)\<close>: the occurrences of \<open>old\<close> are taken from the left and do
  not overlap. With an empty \<open>old\<close> Python puts \<open>new\<close> around every character.\<close>

function py_replace :: "string \<Rightarrow> string \<Rightarrow> string \<Rightarrow> string" where
  "py_replace [] old new = (if old = [] then new else [])"
| "py_replace (c # cs) old new =
     (if old = [] then new @ c # py_replace cs old new
      else if startswith (c # cs) old
        then new @ py_replace (drop (length old) (c # cs)) old new
      else c # py_replace cs old new)"
  by pat_completeness auto
termination
  by (relation "measure (\<lambda>(s, old, new). length s)") auto

text \<open>\<open>s.split(sep)\<close> with a separator. Every call of the module passes a literal,
  non-empty separator; Python raises ValueError on an empty one, and the model then
  leaves the string whole.\<close>

function py_split :: "string \<Rightarrow> string \<Rightarrow> string list" where
  "py_split [] sep = [[]]"
| "py_split (c # cs) sep =
     (if sep \<noteq> [] \<and> startswith (c # cs) sep
        then [] # py_split (drop (length sep) (c # cs)) sep
      else (case py_split cs sep of
              [] \<Rightarrow> [[c]]
            | p # ps \<Rightarrow> (c # p) # ps))"
  by pat_completeness auto
termination
  by (relation "measure (\<lambda>(s, sep). length s)") auto

text \<open>\<open>s.rsplit(sep, 1)\<close>: at most one split, at the last occurrence of \<open>sep\<close>.\<close>

definition py_rsplit1 :: "string \<Rightarrow> string \<Rightarrow> string list" where
  "py_rsplit1 s sep =
     (let i = py_rfind s sep in
      if i < 0 then [s] else [take (nat i) s, drop (nat i + length sep) s])"

fun py_join :: "string \<Rightarrow> string list \<Rightarrow> string" where
  "py_join sep [] = []"
| "py_join sep [x] = x"
| "py_join sep (x # y # ys) = x @ sep @ py_join sep (y # ys)"

text \<open>Whitespace as \<open>str.isspace\<close> sees it, among the code points below 256:
  TAB, LF, VT, FF, CR, FS, GS, RS, US, space, NEL and NBSP.\<close>

definition isspace :: "char \<Rightarrow> bool" where
  "isspace c = (of_char c \<in> {9, 10, 11, 12, 13, 28, 29, 30, 31, 32, 133, 160 :: nat})"

definition py_lstrip :: "string \<Rightarrow> string" where
  "py_lstrip s = dropWhile isspace s"

definition py_rstrip :: "string \<Rightarrow> string" where
  "py_rstrip s = rev (dropWhile isspace (rev s))"

definition py_strip :: "string \<Rightarrow> string" where
  "py_strip s = py_rstrip (py_lstrip s)"

text \<open>\<open>xs[i]\<close> on a list: a negative index counts from the end, an index out of range
  raises IndexError.\<close>

definition py_index :: "'a list \<Rightarrow> int \<Rightarrow> error + 'a" where
  "py_index xs i =
     (if 0 \<le> i \<and> i < int (length xs) then Inr (xs ! nat i)
      else if i < 0 \<and> - i \<le> int (length xs) then Inr (xs ! nat (int (length xs) + i))
      else Inl IndexError)"

text \<open>\<open>xs[i:]\<close> for \<open>i \<ge> 0\<close>, the only slice the module takes.\<close>

definition slice_from :: "'a list \<Rightarrow> nat \<Rightarrow> 'a list" where
  "slice_from xs i = drop i xs"

subsection \<open>Integers and their decimal text\<close>

definition isdigit :: "char \<Rightarrow> bool" where
  "isdigit c = (48 \<le> (of_char c :: nat) \<and> (of_char c :: nat) \<le> 57)"

definition digit_val :: "char \<Rightarrow> int" where
  "digit_val c = int (of_char c) - 48"

text \<open>The value of a run of digits, most significant first.\<close>

fun digits_val :: "int \<Rightarrow> string \<Rightarrow> int" where
  "digits_val acc [] = acc"
| "digits_val acc (c # cs) = digits_val (acc * 10 + digit_val c) cs"

text \<open>\<open>int(s)\<close> in base 10, as Python 3 reads a string: the whitespace that it drops
  at both ends is TAB, LF, VT, FF, CR, space, NEL and NBSP (not FS, GS, RS and US, which
  \<open>str.strip\<close> drops); one sign is allowed; then come digits, where single underscores
  may stand between two digits; anything else raises ValueError. The limit on the
  number of digits that the interpreter has since 3.11 is a setting of the interpreter
  and is left out.\<close>

definition int_space :: "char \<Rightarrow> bool" where
  "int_space c = (of_char c \<in> {9, 10, 11, 12, 13, 32, 133, 160 :: nat})"

fun grouped_digits :: "string \<Rightarrow> bool" where
  "grouped_digits [] = False"
| "grouped_digits [c] = isdigit c"
| "grouped_digits (c # d # cs) =
     (isdigit c \<and> (if d = CHR ''_'' then grouped_digits cs else grouped_digits (d # cs)))"

definition py_int :: "string \<Rightarrow> error + int" where
  "py_int s =
     (let t = rev (dropWhile int_space (rev (dropWhile int_space s)));
          neg = (t \<noteq> [] \<and> hd t = CHR ''-'');
          ds = (if t \<noteq> [] \<and> (hd t = CHR ''-'' \<or> hd t = CHR ''+'') then tl t else t)
      in if \<not> grouped_digits ds then Inl ValueError
         else (let v = digits_val 0 (filter (\<lambda>c. c \<noteq> CHR ''_'') ds)
               in Inr (if neg then - v else v)))"

definition digit_char :: "nat \<Rightarrow> char" where
  "digit_char d = char_of (48 + d)"

fun nat_str :: "nat \<Rightarrow> string" where
  "nat_str n = (if n < 10 then [digit_char n] else nat_str (n div 10) @ [digit_char (n mod 10)])"

declare nat_str.simps [simp del]

text \<open>\<open>str(i)\<close>, which is also what \<open>'%s' % i\<close> and \<open>'%d' % i\<close> print.\<close>

definition py_str :: "int \<Rightarrow> string" where
  "py_str i = (if i < 0 then CHR ''-'' # nat_str (nat (- i)) else nat_str (nat i))"

text \<open>\<open>'%02d' % i\<close> and \<open>'%04d' % i\<close> for \<open>i \<ge> 0\<close>: zero padding on the left.\<close>

definition zero_pad :: "nat \<Rightarrow> int \<Rightarrow> string" where
  "zero_pad w i = (let s = py_str i in replicate (w - length s) CHR ''0'' @ s)"

subsection \<open>hashlib.sha1\<close>

text \<open>
  \<open>sha1(text.encode('utf-8')).hexdigest()\<close>: the text is encoded (one byte for a code
  point below 128, two bytes for the others the model has), padded to whole blocks of
  64 bytes, and each block is mixed into five 32-bit words by 80 rounds. The digest is
  the five words in hexadecimal, lower case.
\<close>

type_synonym w32 = "32 word"

definition utf8_encode :: "string \<Rightarrow> nat list" where
  "utf8_encode s =
     concat (map (\<lambda>c. let n = of_char c in
                        if n < 128 then [n] else [192 + n div 64, 128 + n mod 64]) s)"

fun be_bytes :: "nat \<Rightarrow> nat \<Rightarrow> nat list" where
  "be_bytes 0 n = []"
| "be_bytes (Suc k) n = be_bytes k (n div 256) @ [n mod 256]"

definition sha1_pad :: "nat list \<Rightarrow> nat list" where
  "sha1_pad m =
     m @ [128] @ replicate ((119 - length m mod 64) mod 64) 0 @ be_bytes 8 (8 * length m)"

fun be_word :: "nat list \<Rightarrow> w32" where
  "be_word bs = of_nat (foldl (\<lambda>a b. a * 256 + b) 0 bs)"

fun chunks :: "nat \<Rightarrow> 'a list \<Rightarrow> 'a list list" where
  "chunks n [] = []"
| "chunks n (x # xs) = take n (x # xs) # chunks n (drop (n - 1) xs)"

fun schedule :: "nat \<Rightarrow> w32 list \<Rightarrow> w32 list" where
  "schedule 0 ws = ws"
| "schedule (Suc k) ws =
     (let t = length ws in
      schedule k (ws @ [word_rotl 1
        (ws ! (t - 3) XOR ws ! (t - 8) XOR ws ! (t - 14) XOR ws ! (t - 16))]))"

definition sha1_f :: "nat \<Rightarrow> w32 \<Rightarrow> w32 \<Rightarrow> w32 \<Rightarrow> w32" where
  "sha1_f t b c d =
     (if t < 20 then (b AND c) OR (NOT b AND d)
      else if t < 40 then b XOR c XOR d
      else if t < 60 then (b AND c) OR (b AND d) OR (c AND d)
      else b XOR c XOR d)"

definition sha1_k :: "nat \<Rightarrow> w32" where
  "sha1_k t =
     (if t < 20 then 0x5A827999 else if t < 40 then 0x6ED9EBA1
      else if t < 60 then 0x8F1BBCDC else 0xCA62C1D6)"

type_synonym sha1_state = "w32 \<times> w32 \<times> w32 \<times> w32 \<times> w32"

fun sha1_round :: "w32 list \<Rightarrow> sha1_state \<Rightarrow> nat \<Rightarrow> sha1_state" where
  "sha1_round w (a, b, c, d, e) t =
     (word_rotl 5 a + sha1_f t b c d + e + sha1_k t + w ! t, a, word_rotl 30 b, c, d)"

fun sha1_block :: "sha1_state \<Rightarrow> nat list \<Rightarrow> sha1_state" where
  "sha1_block (h0, h1, h2, h3, h4) block =
     (let w = schedule 64 (map be_word (chunks 4 block));
          (a, b, c, d, e) = foldl (sha1_round w) (h0, h1, h2, h3, h4) [0..<80]
      in (h0 + a, h1 + b, h2 + c, h3 + d, h4 + e))"

definition sha1 :: "nat list \<Rightarrow> sha1_state" where
  "sha1 m = foldl sha1_block (0x67452301, 0xEFCDAB89, 0x98BADCFE, 0x10325476, 0xC3D2E1F0)
              (chunks 64 (sha1_pad m))"

definition hex_char :: "nat \<Rightarrow> char" where
  "hex_char d = (if d < 10 then char_of (48 + d) else char_of (87 + d))"

fun hex_digits :: "nat \<Rightarrow> nat \<Rightarrow> string" where
  "hex_digits 0 n = []"
| "hex_digits (Suc k) n = hex_digits k (n div 16) @ [hex_char (n mod 16)]"

definition hex_word :: "w32 \<Rightarrow> string" where
  "hex_word w = hex_digits 8 (unat w)"

definition sha1_hexdigest :: "string \<Rightarrow> string" where
  "sha1_hexdigest text =
     (case sha1 (utf8_encode text) of (h0, h1, h2, h3, h4) \<Rightarrow>
        hex_word h0 @ hex_word h1 @ hex_word h2 @ hex_word h3 @ hex_word h4)"

subsection \<open>Dates, times and time differences\<close>

text \<open>
  The \<open>datetime\<close> module keeps a date as year, month and day and computes with its
  proleptic Gregorian ordinal (day 1 is 0001-01-01, the last day 9999-12-31 is
  3652059): comparison, subtraction and the addition of days all go through the
  ordinal. The model keeps the ordinal and converts at the two ends, with the
  module's own \<open>_ymd2ord\<close> and \<open>_ord2ymd\<close>. A datetime adds the second of the day
  and the offset of its zone from UTC in minutes (zones are fixed offsets here). A
  \<open>timedelta\<close> is its length in seconds.
\<close>

definition is_leap :: "int \<Rightarrow> bool" where
  "is_leap y = (y mod 4 = 0 \<and> (y mod 100 \<noteq> 0 \<or> y mod 400 = 0))"

definition DAYS_IN_MONTH :: "int list" where
  "DAYS_IN_MONTH = [31, 28, 31, 30, 31, 30, 31, 31, 30, 31, 30, 31]"

definition DAYS_BEFORE_MONTH :: "int list" where
  "DAYS_BEFORE_MONTH = [0, 31, 59, 90, 120, 151, 181, 212, 243, 273, 304, 334]"

definition days_before_year :: "int \<Rightarrow> int" where
  "days_before_year year =
     (let y = year - 1 in y * 365 + y div 4 - y div 100 + y div 400)"

text \<open>Both tables are read with a month from 1 to 12 only.\<close>

definition days_in_month :: "int \<Rightarrow> int \<Rightarrow> int" where
  "days_in_month year month =
     (if month = 2 \<and> is_leap year then 29 else DAYS_IN_MONTH ! nat (month - 1))"

definition days_before_month :: "int \<Rightarrow> int \<Rightarrow> int" where
  "days_before_month year month =
     DAYS_BEFORE_MONTH ! nat (month - 1) + (if month > 2 \<and> is_leap year then 1 else 0)"

definition ymd2ord :: "int \<Rightarrow> int \<Rightarrow> int \<Rightarrow> int" where
  "ymd2ord year month day = days_before_year year + days_before_month year month + day"

definition MAXORDINAL :: int where
  "MAXORDINAL = 3652059"

definition ord2ymd :: "int \<Rightarrow> int \<times> int \<times> int" where
  "ord2ymd n0 =
     (let n = n0 - 1;
          n400 = n div 146097; n = n mod 146097;
          n100 = n div 36524; n = n mod 36524;
          n4 = n div 1461; n = n mod 1461;
          n1 = n div 365; n = n mod 365;
          year = n400 * 400 + 1 + n100 * 100 + n4 * 4 + n1
      in if n1 = 4 \<or> n100 = 4 then (year - 1, 12, 31)
         else
           (let leapyear = (n1 = 3 \<and> (n4 \<noteq> 24 \<or> n100 = 3));
                month = (n + 50) div 32;
                preceding = DAYS_BEFORE_MONTH ! nat (month - 1)
                            + (if month > 2 \<and> leapyear then 1 else 0)
            in if preceding > n
               then (let month' = month - 1;
                         preceding' = preceding - (DAYS_IN_MONTH ! nat (month' - 1)
                                        + (if month' = 2 \<and> leapyear then 1 else 0))
                     in (year, month', n - preceding' + 1))
               else (year, month, n - preceding + 1)))"

datatype dateval =
    Date int
  | DateTime int int int

fun is_datetime :: "dateval \<Rightarrow> bool" where
  "is_datetime (Date n) = False"
| "is_datetime (DateTime n s tz) = True"

fun ordinal :: "dateval \<Rightarrow> int" where
  "ordinal (Date n) = n"
| "ordinal (DateTime n s tz) = n"

text \<open>\<open>date(year, month, day)\<close> and \<open>datetime(year, month, day, hour, minute,
  tzinfo=tz)\<close>: both check their fields and raise ValueError.\<close>

definition check_date_fields :: "int \<Rightarrow> int \<Rightarrow> int \<Rightarrow> bool" where
  "check_date_fields year month day =
     (1 \<le> year \<and> year \<le> 9999 \<and> 1 \<le> month \<and> month \<le> 12
      \<and> 1 \<le> day \<and> day \<le> days_in_month year month)"

definition mk_date :: "int \<Rightarrow> int \<Rightarrow> int \<Rightarrow> error + dateval" where
  "mk_date year month day =
     (if check_date_fields year month day then Inr (Date (ymd2ord year month day))
      else Inl ValueError)"

definition mk_datetime :: "int \<Rightarrow> int \<Rightarrow> int \<Rightarrow> int \<Rightarrow> int \<Rightarrow> int \<Rightarrow> error + dateval" where
  "mk_datetime year month day hour minute tz =
     (if check_date_fields year month day \<and> 0 \<le> hour \<and> hour \<le> 23
         \<and> 0 \<le> minute \<and> minute \<le> 59
      then Inr (DateTime (ymd2ord year month day) (hour * 3600 + minute * 60) tz)
      else Inl ValueError)"

text \<open>\<open>timedelta(minutes=m)\<close>: the days of a timedelta are limited to nine digits.\<close>

definition mk_timedelta_minutes :: "int \<Rightarrow> error + int" where
  "mk_timedelta_minutes m =
     (if \<bar>(m * 60) div 86400\<bar> \<le> 999999999 then Inr (m * 60) else Inl OverflowError)"

definition td_days :: "int \<Rightarrow> int" where
  "td_days td = td div 86400"

text \<open>\<open>d + timedelta(days=k)\<close>: OverflowError outside the years 1 to 9999.\<close>

fun add_days :: "dateval \<Rightarrow> int \<Rightarrow> error + dateval" where
  "add_days (Date n) k =
     (if 1 \<le> n + k \<and> n + k \<le> MAXORDINAL then Inr (Date (n + k)) else Inl OverflowError)"
| "add_days (DateTime n s tz) k =
     (if 1 \<le> n + k \<and> n + k \<le> MAXORDINAL then Inr (DateTime (n + k) s tz)
      else Inl OverflowError)"

definition utc_seconds :: "int \<Rightarrow> int \<Rightarrow> int \<Rightarrow> int" where
  "utc_seconds n s tz = n * 86400 + s - tz * 60"

text \<open>\<open>a - b\<close> and \<open>a < b\<close>: a date and a datetime do not mix (TypeError).\<close>

fun sub_dateval :: "dateval \<Rightarrow> dateval \<Rightarrow> error + int" where
  "sub_dateval (Date a) (Date b) = Inr ((a - b) * 86400)"
| "sub_dateval (DateTime a s tz) (DateTime b s' tz') =
     Inr (utc_seconds a s tz - utc_seconds b s' tz')"
| "sub_dateval (Date a) (DateTime b s' tz') = Inl TypeError"
| "sub_dateval (DateTime a s tz) (Date b) = Inl TypeError"

fun dateval_less :: "dateval \<Rightarrow> dateval \<Rightarrow> error + bool" where
  "dateval_less (Date a) (Date b) = Inr (a < b)"
| "dateval_less (DateTime a s tz) (DateTime b s' tz') =
     Inr (utc_seconds a s tz < utc_seconds b s' tz')"
| "dateval_less (Date a) (DateTime b s' tz') = Inl TypeError"
| "dateval_less (DateTime a s tz) (Date b) = Inl TypeError"

text \<open>\<open>max(xs)\<close> and \<open>min(xs)\<close> walk the list once and keep the first extreme
  element; on an empty list they raise ValueError.\<close>

fun max_from :: "dateval \<Rightarrow> dateval list \<Rightarrow> error + dateval" where
  "max_from m [] = Inr m"
| "max_from m (x # xs) =
     (case dateval_less m x of
        Inl e \<Rightarrow> Inl e
      | Inr b \<Rightarrow> max_from (if b then x else m) xs)"

fun min_from :: "dateval \<Rightarrow> dateval list \<Rightarrow> error + dateval" where
  "min_from m [] = Inr m"
| "min_from m (x # xs) =
     (case dateval_less x m of
        Inl e \<Rightarrow> Inl e
      | Inr b \<Rightarrow> min_from (if b then x else m) xs)"

definition py_max :: "dateval list \<Rightarrow> error + dateval" where
  "py_max xs = (case xs of [] \<Rightarrow> Inl ValueError | x # ys \<Rightarrow> max_from x ys)"

definition py_min :: "dateval list \<Rightarrow> error + dateval" where
  "py_min xs = (case xs of [] \<Rightarrow> Inl ValueError | x # ys \<Rightarrow> min_from x ys)"

text \<open>\<open>strftime\<close> with the formats of the module, in the C locale. The year prints
  as the C library prints it, without padding.\<close>

definition month_abbr :: "int \<Rightarrow> string" where
  "month_abbr m =
     [''Jan'', ''Feb'', ''Mar'', ''Apr'', ''May'', ''Jun'',
      ''Jul'', ''Aug'', ''Sep'', ''Oct'', ''Nov'', ''Dec''] ! nat (m - 1)"

definition strftime_b_d_Y :: "dateval \<Rightarrow> string" where
  "strftime_b_d_Y v =
     (case ord2ymd (ordinal v) of
        (y, m, d) \<Rightarrow> month_abbr m @ '' '' @ zero_pad 2 d @ '' '' @ py_str y)"

definition strftime_Y_m_d :: "dateval \<Rightarrow> string" where
  "strftime_Y_m_d v =
     (case ord2ymd (ordinal v) of
        (y, m, d) \<Rightarrow> py_str y @ ''-'' @ zero_pad 2 m @ ''-'' @ zero_pad 2 d)"

text \<open>\<open>v.astimezone(tz).strftime('AT %H:%M')\<close> on a datetime.\<close>

definition strftime_AT :: "int \<Rightarrow> dateval \<Rightarrow> error + string" where
  "strftime_AT localtz v =
     (case v of
        Date n \<Rightarrow> Inl AttributeError
      | DateTime n s tz \<Rightarrow>
          (let t = utc_seconds n s tz + localtz * 60;
               n' = t div 86400; s' = t mod 86400
           in if 1 \<le> n' \<and> n' \<le> MAXORDINAL
              then Inr (''AT '' @ zero_pad 2 (s' div 3600) @ '':''
                        @ zero_pad 2 (s' mod 3600 div 60))
              else Inl OverflowError))"

text \<open>\<open>d.strftime('UNTIL %b %d %Y').replace(' 0', ' ')\<close>, the clause that ends a
  repetition.\<close>

definition until_clause :: "dateval \<Rightarrow> string" where
  "until_clause v = py_replace (''UNTIL '' @ strftime_b_d_Y v) '' 0'' '' ''"

subsection \<open>Sequencing calls that can raise\<close>

definition ebind :: "error + 'a \<Rightarrow> ('a \<Rightarrow> error + 'b) \<Rightarrow> error + 'b" where
  "ebind m f = (case m of Inl e \<Rightarrow> Inl e | Inr x \<Rightarrow> f x)"

text \<open>A list comprehension \<open>[f(x) for x in xs]\<close>: the first raise ends it.\<close>

fun emap :: "('a \<Rightarrow> error + 'b) \<Rightarrow> 'a list \<Rightarrow> error + 'b list" where
  "emap f [] = Inr []"
| "emap f (x # xs) = ebind (f x) (\<lambda>y. ebind (emap f xs) (\<lambda>ys. Inr (y # ys)))"

subsection \<open>Recurrence rules and calendar events of the libraries\<close>

text \<open>
  A \<open>dateutil\<close> rule as the module reads it: the attributes \<open>_freq\<close>, \<open>_count\<close>,
  \<open>_until\<close> and \<open>_byweekday\<close>, and the dates that iterating the rule yields (\<open>None\<close>
  when the iteration never ends). A rule set has its rules, its explicit dates and the
  dates that iterating the set yields. The event property \<open>rruleset\<close> is kept as a read
  of it returns it: the calendar library rebuilds the set from the event's start.
\<close>

definition YEARLY :: int where "YEARLY = 0"
definition WEEKLY :: int where "WEEKLY = 2"
definition DAILY :: int where "DAILY = 3"

record rrule =
  rr_freq :: int
  rr_count :: "int option"
  rr_until :: "dateval option"
  rr_byweekday :: "int list"
  rr_dates :: "dateval list option"

record rruleset =
  rs_rrule :: "rrule list"
  rs_rdate :: "dateval list"
  rs_dates :: "dateval list option"

record valarm =
  al_trigger :: int
  al_action :: string
  al_description :: string

record vevent =
  dtstart :: "dateval option"
  summary :: "string option"
  uid :: "string option"
  location :: "string option"
  description :: "string option"
  valarm :: "valarm option"
  duration :: "int option"
  dtend :: "dateval option"
  rruleset :: "rruleset option"

definition new_vevent :: vevent where
  "new_vevent = \<lparr>dtstart = None, summary = None, uid = None, location = None,
     description = None, valarm = None, duration = None, dtend = None, rruleset = None\<rparr>"

text \<open>\<open>hasattr(vevent, 'rrule')\<close> and \<open>hasattr(vevent, 'rdate')\<close>.\<close>

definition has_rrule :: "vevent \<Rightarrow> bool" where
  "has_rrule v = (case rruleset v of None \<Rightarrow> False | Some rs \<Rightarrow> rs_rrule rs \<noteq> [])"

definition has_rdate :: "vevent \<Rightarrow> bool" where
  "has_rdate v = (case rruleset v of None \<Rightarrow> False | Some rs \<Rightarrow> rs_rdate rs \<noteq> [])"

text \<open>The dates of a rule with a count and no other part, from its start: one every
  \<open>step\<close> days, as long as the calendar lasts.\<close>

fun shift_days :: "dateval \<Rightarrow> int \<Rightarrow> dateval" where
  "shift_days (Date n) k = Date (n + k)"
| "shift_days (DateTime n s tz) k = DateTime (n + k) s tz"

definition rule_dates :: "dateval \<Rightarrow> int \<Rightarrow> nat \<Rightarrow> dateval list" where
  "rule_dates d0 step n =
     filter (\<lambda>v. 1 \<le> ordinal v \<and> ordinal v \<le> MAXORDINAL)
       (map (\<lambda>k. shift_days d0 (step * int k)) [0..<n])"

definition weekday :: "dateval \<Rightarrow> int" where
  "weekday v = (ordinal v + 6) mod 7"

text \<open>\<open>rset = rrule.rruleset(); rset.rrule(rrule.rrule(freq=f, count=n))\<close>, as the
  event that starts at \<open>d0\<close> holds it. A weekly rule without days is a rule for the
  weekday of the start.\<close>

definition counted_rule :: "int \<Rightarrow> nat \<Rightarrow> dateval \<Rightarrow> rruleset" where
  "counted_rule f n d0 =
     (let ds = rule_dates d0 (if f = WEEKLY then 7 else 1) n in
      \<lparr>rs_rrule = [\<lparr>rr_freq = f, rr_count = Some (int n), rr_until = None,
                    rr_byweekday = (if f = WEEKLY then [weekday d0] else []),
                    rr_dates = Some ds\<rparr>],
       rs_rdate = [], rs_dates = Some ds\<rparr>)"

text \<open>A set of explicit dates only; iterating it yields them in order of time.\<close>

definition instant :: "dateval \<Rightarrow> int" where
  "instant v = (case v of Date n \<Rightarrow> n * 86400 | DateTime n s tz \<Rightarrow> utc_seconds n s tz)"

definition rdate_set :: "dateval list \<Rightarrow> rruleset" where
  "rdate_set ds =
     \<lparr>rs_rrule = [], rs_rdate = ds, rs_dates = Some (remdups_adj (sort_key instant ds))\<rparr>"

text \<open>
  \<open>vevent.rruleset = rset\<close> goes through the setter of the calendar library. The
  setter reads the start of the event first and raises AttributeError when the event
  has none. It keeps a rule as its frequency and count, and a later read builds the
  rule again from the start of the event. It takes what the event had before away,
  drops from the explicit dates the first one that is the start of the event, and
  keeps the explicit dates only when some are left.
\<close>

definition set_counted_rule :: "int \<Rightarrow> nat \<Rightarrow> vevent \<Rightarrow> error + vevent" where
  "set_counted_rule f n vevent =
     (case dtstart vevent of
        None \<Rightarrow> Inl AttributeError
      | Some s \<Rightarrow> Inr (vevent\<lparr>rruleset := Some (counted_rule f n s)\<rparr>))"

fun remove_instant :: "int \<Rightarrow> dateval list \<Rightarrow> dateval list" where
  "remove_instant t [] = []"
| "remove_instant t (d # ds) = (if instant d = t then ds else d # remove_instant t ds)"

definition set_rdates :: "dateval list \<Rightarrow> vevent \<Rightarrow> error + vevent" where
  "set_rdates rdates vevent =
     (case dtstart vevent of
        None \<Rightarrow> Inl AttributeError
      | Some s \<Rightarrow>
          (let kept = remove_instant (instant s) rdates in
           Inr (vevent\<lparr>rruleset := (if kept = [] then None else Some (rdate_set kept))\<rparr>)))"

text \<open>\<open>dat.astimezone(gettz('UTC'))\<close>.\<close>

definition to_utc :: "dateval \<Rightarrow> error + dateval" where
  "to_utc v =
     (case v of
        Date n \<Rightarrow> Inl AttributeError
      | DateTime n s tz \<Rightarrow>
          (let t = utc_seconds n s tz in
           if 1 \<le> t div 86400 \<and> t div 86400 \<le> MAXORDINAL
           then Inr (DateTime (t div 86400) (t mod 86400) 0) else Inl OverflowError))"

subsection \<open>Files\<close>

text \<open>The disk is a map from file names to contents. \<open>readlines\<close> of a file opened
  through \<open>codecs\<close> cuts at every line boundary that \<open>str.splitlines\<close> knows and keeps
  the line ends; a file that is not there raises IOError.\<close>

definition linebreak :: "char \<Rightarrow> bool" where
  "linebreak c = (of_char c \<in> {10, 11, 12, 13, 28, 29, 30, 133 :: nat})"

fun splitlines :: "string \<Rightarrow> string \<Rightarrow> string list" where
  "splitlines cur [] = (if cur = [] then [] else [cur])"
| "splitlines cur [c] = (if linebreak c then [cur @ [c]] else [cur @ [c]])"
| "splitlines cur (c # d # cs) =
     (if c = CHR 0x0D \<and> d = CHR 0x0A then (cur @ [c, d]) # splitlines [] cs
      else if linebreak c then (cur @ [c]) # splitlines [] (d # cs)
      else splitlines (cur @ [c]) (d # cs))"

definition readlines :: "(string \<rightharpoonup> string) \<Rightarrow> string \<Rightarrow> error + string list" where
  "readlines files filename =
     (case files filename of None \<Rightarrow> Inl IOError | Some content \<Rightarrow> Inr (splitlines [] content))"

section \<open>The Remind class\<close>

subsection \<open>Identities\<close>

text \<open>
  \<open>_gen_uid(line_number, text)\<close>: \<open>'%s-%s@%s' % (line_number, hashed_text, getfqdn())\<close>.
  The host name comes from the machine and is a parameter here. The caller passes the
  line number as the text of field 2 of the expansion record.
\<close>

text \<open>\<open>name.split('@')[0].split('-')\<close>, the first statement of \<open>remove\<close> and of
  \<open>replace\<close> after the check of the file name. A split is never empty, so the index 0
  is always there.\<close>

definition uid_parts :: "string \<Rightarrow> string list" where
  "uid_parts name = py_split (hd (py_split name ''@'')) ''-''"

definition gen_uid :: "string \<Rightarrow> string \<Rightarrow> string \<Rightarrow> string" where
  "gen_uid fqdn line_number text =
     line_number @ ''-'' @ sha1_hexdigest text @ ''@'' @ fqdn"

subsection \<open>From Remind to iCalendar\<close>

text \<open>The dictionary that \<open>_parse_remind_line\<close> fills.\<close>

record event =
  ev_dtstart :: "dateval list"
  ev_duration :: "int option"
  ev_msg :: string
  ev_location :: "string option"
  ev_description :: "string option"
  ev_uid :: string

text \<open>\<open>_gen_description(text)\<close>:
  \<open>text[text.rfind('%"') + 3:].replace('%_', '\n').replace('["["]', '[').strip()\<close>.\<close>

definition gen_description :: "string \<Rightarrow> string" where
  "gen_description text =
     py_strip (py_replace
       (py_replace (slice_from text (nat (py_rfind text ''%\"'' + 3))) ''%_'' ''\<newline>'')
       ''[\"[\"]'' ''['')"

text \<open>\<open>_parse_remind_line(line, text)\<close>: \<open>line\<close> is the list of the fields of one
  expansion record, \<open>text\<close> the line of the Remind file it comes from.\<close>

definition parse_remind_line :: "int \<Rightarrow> string \<Rightarrow> string list \<Rightarrow> string \<Rightarrow> error + event" where
  "parse_remind_line localtz fqdn line text =
     ebind (py_index line 4) (\<lambda>f4.
     ebind (emap py_int (py_split f4 ''/'')) (\<lambda>dat.
     ebind (py_index line 8) (\<lambda>f8.
     ebind
       (if f8 \<noteq> ''*'' then
          ebind (py_int f8) (\<lambda>t.
          ebind (py_index dat 0) (\<lambda>y.
          ebind (py_index dat 1) (\<lambda>m.
          ebind (py_index dat 2) (\<lambda>d.
          ebind (mk_datetime y m d (t div 60) (t mod 60) localtz) (\<lambda>start.
          ebind (py_index line 7) (\<lambda>f7.
          if f7 \<noteq> ''*'' then
            ebind (py_int f7) (\<lambda>mins.
            ebind (mk_timedelta_minutes mins) (\<lambda>td. Inr ([start], Some td)))
          else Inr ([start], None)))))))
        else
          ebind (py_index dat 0) (\<lambda>y.
          ebind (py_index dat 1) (\<lambda>m.
          ebind (py_index dat 2) (\<lambda>d.
          ebind (mk_date y m d) (\<lambda>start. Inr ([start], None))))))
       (\<lambda>(starts, dur).
          let msg = py_join '' '' (if f8 = ''*'' then drop 9 line else drop 10 line);
              parts = (if py_in '' at '' msg then py_rsplit1 msg '' at '' else [msg])
          in ebind (py_index line 2) (\<lambda>f2.
             Inr \<lparr>ev_dtstart = starts, ev_duration = dur,
                  ev_msg = hd parts,
                  ev_location = (if py_in '' at '' msg then Some (parts ! 1) else None),
                  ev_description =
                    (if py_in ''%\"'' text then Some (gen_description text) else None),
                  ev_uid = gen_uid fqdn f2 text\<rparr>)))))"

text \<open>\<open>_weekly(dates)\<close>.\<close>

fun weekly_from :: "dateval \<Rightarrow> dateval list \<Rightarrow> error + bool" where
  "weekly_from last_date [] = Inr True"
| "weekly_from last_date (dat # ds) =
     ebind (sub_dateval dat last_date) (\<lambda>td.
       if td_days td \<noteq> 7 then Inr False else weekly_from dat ds)"

definition weekly :: "dateval list \<Rightarrow> error + bool" where
  "weekly dates = (case dates of [] \<Rightarrow> Inl IndexError | d # ds \<Rightarrow> weekly_from d ds)"

text \<open>\<open>_gen_dtend_rrule(dtstarts, vevent)\<close>. The two branches with a rule store it
  through the setter of the event. In the last branch the start of the event is moved
  back by a day (which can leave the calendar, OverflowError, and needs an event with
  a start), the explicit dates are stored through the setter, and the start is put
  back.\<close>

definition gen_dtend_rrule :: "dateval list \<Rightarrow> vevent \<Rightarrow> error + vevent" where
  "gen_dtend_rrule dtstarts vevent =
     ebind (py_max dtstarts) (\<lambda>hi.
     ebind (py_min dtstarts) (\<lambda>lo.
     ebind (sub_dateval hi lo) (\<lambda>span.
     if td_days span = int (length dtstarts) - 1 then
       ebind (py_index dtstarts 0) (\<lambda>d0.
       if is_datetime d0 then
         set_counted_rule DAILY (length dtstarts) vevent
       else
         ebind (py_index dtstarts (- 1)) (\<lambda>dl.
         ebind (add_days dl 1) (\<lambda>e. Inr (vevent\<lparr>dtend := Some e\<rparr>))))
     else
       ebind (weekly dtstarts) (\<lambda>w.
       if w then
         set_counted_rule WEEKLY (length dtstarts) vevent
       else
         ebind (py_index dtstarts 0) (\<lambda>d0.
         ebind (if is_datetime d0 then emap to_utc dtstarts
                else Inr (map (\<lambda>dat. DateTime (ordinal dat) 0 0) dtstarts)) (\<lambda>rdates.
         ebind (add_days d0 (- 1)) (\<lambda>before.
         if dtstart vevent = None then Inl AttributeError
         else
           ebind (set_rdates rdates (vevent\<lparr>dtstart := Some before\<rparr>)) (\<lambda>v1.
           let v = v1\<lparr>dtstart := Some d0\<rparr>
           in if \<not> is_datetime d0
              then ebind (add_days d0 1) (\<lambda>e. Inr (v\<lparr>dtend := Some e\<rparr>))
              else Inr v))))))))"

text \<open>\<open>_gen_vevent(event, vevent)\<close>.\<close>

definition gen_vevent :: "event \<Rightarrow> vevent \<Rightarrow> error + vevent" where
  "gen_vevent event vevent =
     ebind (py_index (ev_dtstart event) 0) (\<lambda>d0.
     let v1 = vevent\<lparr>dtstart := Some d0, summary := Some (ev_msg event),
                      uid := Some (ev_uid event)\<rparr>;
         v2 = (case ev_location event of None \<Rightarrow> v1 | Some l \<Rightarrow> v1\<lparr>location := Some l\<rparr>);
         v3 = (case ev_description event of None \<Rightarrow> v2
               | Some t \<Rightarrow> v2\<lparr>description := Some t\<rparr>)
     in ebind
          (if is_datetime d0 then
             (let v4 = v3\<lparr>valarm := Some \<lparr>al_trigger = - 600, al_action = ''DISPLAY'',
                                           al_description = ev_msg event\<rparr>\<rparr>
              in case ev_duration event of
                   Some td \<Rightarrow> Inr (v4\<lparr>duration := Some td\<rparr>)
                 | None \<Rightarrow> Inr (v4\<lparr>dtend := Some d0\<rparr>))
           else if length (ev_dtstart event) = 1 then
             ebind (add_days d0 1) (\<lambda>e. Inr (v3\<lparr>dtend := Some e\<rparr>))
           else Inr v3)
          (\<lambda>v5. if length (ev_dtstart event) > 1
                 then gen_dtend_rrule (ev_dtstart event) v5 else Inr v5))"

text \<open>
  \<open>_parse_remind(filename, lines)\<close> from the text \<open>rem\<close> that the \<open>remind\<close> process
  printed, which is a parameter here. The dictionaries keep the order of insertion and
  are lists of pairs. The source reads a file at the first record that names it; the
  disk does not change during the call, so the model reads it at every record.
\<close>

fun upsert_event :: "(string \<times> event) list \<Rightarrow> event \<Rightarrow> (string \<times> event) list" where
  "upsert_event [] e = [(ev_uid e, e)]"
| "upsert_event ((u, x) # rest) e =
     (if u = ev_uid e then (u, x\<lparr>ev_dtstart := ev_dtstart x @ ev_dtstart e\<rparr>) # rest
      else (u, x) # upsert_event rest e)"

fun add_event ::
  "(string \<times> (string \<times> event) list) list \<Rightarrow> string \<Rightarrow> event
     \<Rightarrow> (string \<times> (string \<times> event) list) list" where
  "add_event [] src e = [(src, upsert_event [] e)]"
| "add_event ((f, evs) # rest) src e =
     (if f = src then (f, upsert_event evs e) # rest else (f, evs) # add_event rest src e)"

definition parse_record ::
  "int \<Rightarrow> string \<Rightarrow> (string \<rightharpoonup> string) \<Rightarrow> string
     \<Rightarrow> (string \<times> (string \<times> event) list) list \<Rightarrow> string
     \<Rightarrow> error + (string \<times> (string \<times> event) list) list" where
  "parse_record tz fqdn files lines events record =
     (let line = py_split (py_rstrip (py_replace record ''\<newline>'' '' '')) '' '' in
      ebind (py_index line 3) (\<lambda>src_filename.
      ebind (if lines \<noteq> [] then Inr (py_split lines ''\<newline>'')
             else readlines files src_filename) (\<lambda>file.
      ebind (py_index line 2) (\<lambda>f2.
      ebind (py_int f2) (\<lambda>n.
      ebind (py_index file (n - 1)) (\<lambda>text.
      ebind (parse_remind_line tz fqdn line text) (\<lambda>event.
        Inr (add_event events src_filename event))))))))"

fun parse_records ::
  "int \<Rightarrow> string \<Rightarrow> (string \<rightharpoonup> string) \<Rightarrow> string
     \<Rightarrow> (string \<times> (string \<times> event) list) list \<Rightarrow> string list
     \<Rightarrow> error + (string \<times> (string \<times> event) list) list" where
  "parse_records tz fqdn files lines events [] = Inr events"
| "parse_records tz fqdn files lines events (r # rs) =
     ebind (parse_record tz fqdn files lines events r) (\<lambda>events'.
       parse_records tz fqdn files lines events' rs)"

definition parse_remind ::
  "int \<Rightarrow> string \<Rightarrow> (string \<rightharpoonup> string) \<Rightarrow> string \<Rightarrow> string
     \<Rightarrow> error + (string \<times> vevent list) list" where
  "parse_remind tz fqdn files rem lines =
     (if rem = [] then Inr []
      else
        ebind (parse_records tz fqdn files lines [] (py_split rem ''\<newline>#'')) (\<lambda>events.
        emap (\<lambda>(filename, evs).
                ebind (emap (\<lambda>(u, e). gen_vevent e new_vevent) evs) (\<lambda>vs.
                  Inr (filename, vs))) events))"

subsection \<open>From iCalendar to Remind\<close>

text \<open>\<open>_parse_rdate(rdates)\<close>.\<close>

definition parse_rdate :: "dateval list \<Rightarrow> string" where
  "parse_rdate rdates =
     ''SATISFY ['' @
     py_join ''||''
       (map (\<lambda>r. ''trigdate()=='' @ [CHR 0x27] @ strftime_Y_m_d r @ [CHR 0x27]) rdates)
     @ '']''"

text \<open>\<open>_parse_rruleset(rruleset)\<close> returns a list of clauses or, through
  \<open>_parse_rdate\<close>, one expression.\<close>

datatype trig = Clauses "string list" | Expr string

definition omitted_days :: "int list \<Rightarrow> string list" where
  "omitted_days byweekday =
     map (\<lambda>day. [''Mon'', ''Tue'', ''Wed'', ''Thu'', ''Fri'', ''Sat'', ''Sun''] ! nat day)
       (filter (\<lambda>day. day \<notin> set byweekday) [0, 1, 2, 3, 4, 5, 6])"

definition parse_rruleset :: "rruleset \<Rightarrow> error + trig" where
  "parse_rruleset rs =
     ebind (py_index (rs_rrule rs) 0) (\<lambda>r.
     if rr_freq r = 0 then Inr (Clauses [])
     else if \<not> (length (rr_byweekday r) > 1) \<and> rr_freq r \<noteq> DAILY \<and> rr_freq r \<noteq> WEEKLY
       then (case rr_dates r of
               None \<Rightarrow> Inl NeverReturns
             | Some ds \<Rightarrow> Inr (Expr (parse_rdate ds)))
     else
       (let rep1 = (if length (rr_byweekday r) > 1 then [''*1'']
                    else if rr_freq r = DAILY then [''*1''] else [''*7'']);
            rep2 = (if length (rr_byweekday r) > 1
                    then rep1 @ [''SKIP OMIT '' @ py_join '' '' (omitted_days (rr_byweekday r))]
                    else rep1)
        in case rr_until r of
             Some u \<Rightarrow> Inr (Clauses (rep2 @ [until_clause u]))
           | None \<Rightarrow>
               (if rr_count r \<noteq> None \<and> rr_count r \<noteq> Some 0 then
                  (case rs_dates rs of
                     None \<Rightarrow> Inl NeverReturns
                   | Some ds \<Rightarrow>
                       ebind (py_index ds (- 1)) (\<lambda>l. Inr (Clauses (rep2 @ [until_clause l]))))
                else Inr (Clauses rep2))))"

text \<open>\<open>_event_duration(vevent)\<close>.\<close>

definition event_duration :: "vevent \<Rightarrow> error + int" where
  "event_duration vevent =
     (case dtend vevent of
        Some e \<Rightarrow>
          (case dtstart vevent of
             None \<Rightarrow> Inl AttributeError
           | Some s \<Rightarrow> sub_dateval e s)
      | None \<Rightarrow>
          (case duration vevent of
             Some d \<Rightarrow> Inr (if d \<noteq> 0 then d else 0)
           | None \<Rightarrow> Inr 0))"

text \<open>\<open>_gen_msg(vevent, label)\<close>.\<close>

definition gen_msg :: "vevent \<Rightarrow> string option \<Rightarrow> error + string list" where
  "gen_msg vevent label =
     (case summary vevent of
        None \<Rightarrow> Inl AttributeError
      | Some s \<Rightarrow>
          (let msg0 = (case label of None \<Rightarrow> [] | Some l \<Rightarrow> if l \<noteq> [] then [l] else []);
               msg1 = msg0 @ [py_replace s ''['' ''[\"[\"]''];
               msg2 = (case location vevent of
                         None \<Rightarrow> msg1
                       | Some l \<Rightarrow> if l \<noteq> [] then msg1 @ [''at '' @ l] else msg1)
           in case description vevent of
                None \<Rightarrow> Inr [''MSG'', py_join '' '' msg2]
              | Some d \<Rightarrow>
                  if d \<noteq> [] then
                    Inr [''MSG'', ''%\"'' @ py_join '' '' msg2 @ ''%\"'',
                         py_replace (py_replace d ''\<newline>'' ''%_'') ''['' ''[\"[\"]'']
                  else Inr [''MSG'', py_join '' '' msg2]))"

text \<open>\<open>to_remind(vevent, label, priority)\<close> returns the Remind command and changes the
  event it was given: the result is the pair of the text, or of what was raised, and
  the event afterwards. The division of the duration is on floating point numbers in
  the source and on integers here, which agree on whole seconds.\<close>

definition to_remind ::
  "int \<Rightarrow> vevent \<Rightarrow> string option \<Rightarrow> int option \<Rightarrow> (error + string) \<times> vevent" where
  "to_remind localtz vevent label priority =
     (case (if has_rrule vevent
            then (case rruleset vevent of
                    None \<Rightarrow> Inl AttributeError
                  | Some rs \<Rightarrow> ebind (parse_rruleset rs) (\<lambda>t. Inr (Some t)))
            else Inr None) of
        Inl e \<Rightarrow> (Inl e, vevent)
      | Inr trigdates \<Rightarrow>
     (case dtstart vevent of
        None \<Rightarrow> (Inl AttributeError, vevent)
      | Some start \<Rightarrow>
     (let is_str = (case trigdates of Some (Expr x) \<Rightarrow> True | _ \<Rightarrow> False);
          r1 = [''REM''] @
               (if \<not> has_rdate vevent \<and> \<not> is_str
                then [py_replace (strftime_b_d_Y start) '' 0'' '' ''] else []);
          r2 = r1 @ (case priority of
                       None \<Rightarrow> []
                     | Some p \<Rightarrow> if p \<noteq> 0 then [''PRIORITY '' @ py_str p] else []);
          r3 = r2 @ (case trigdates of Some (Clauses cs) \<Rightarrow> cs | _ \<Rightarrow> [])
      in
     (case event_duration vevent of
        Inl e \<Rightarrow> (Inl e, vevent)
      | Inr dur \<Rightarrow>
     (case (if \<not> is_datetime start \<and> td_days dur > 1 then
              (case dtend vevent of
                 None \<Rightarrow> Inr (r3 @ [''*1''], vevent)
               | Some e \<Rightarrow>
                   ebind (add_days e (- 1)) (\<lambda>e'.
                     Inr (r3 @ [''*1'', until_clause e'], vevent\<lparr>dtend := Some e'\<rparr>)))
            else Inr (r3, vevent)) of
        Inl e \<Rightarrow> (Inl e, vevent)
      | Inr (r4, vevent') \<Rightarrow>
          (ebind
             (if is_datetime start then
                ebind (strftime_AT localtz start) (\<lambda>at.
                  Inr (r4 @ [py_replace at '' 0'' '' ''] @
                       (if dur > 0
                        then [''DURATION '' @ py_str (dur div 3600) @ '':''
                              @ zero_pad 2 (dur mod 3600 div 60)]
                        else [])))
              else Inr r4) (\<lambda>r5.
           let r6 = r5 @
                    (if has_rdate vevent'
                     then (case rruleset vevent' of
                             Some rs \<Rightarrow> [parse_rdate (rs_rdate rs)] | None \<Rightarrow> [])
                     else (case trigdates of Some (Expr x) \<Rightarrow> [x] | _ \<Rightarrow> []))
           in ebind (gen_msg vevent' label) (\<lambda>m.
                Inr (py_join '' '' (r6 @ m) @ ''\<newline>''))),
           vevent'))))))"

text \<open>\<open>to_reminds(ical, label, priority)\<close>: the commands of all the events of a
  calendar, which is the list of its events here. A calendar without events has no
  \<open>vevent_list\<close>: reading it raises AttributeError.\<close>

definition to_reminds :: "int \<Rightarrow> vevent list \<Rightarrow> string option \<Rightarrow> int option \<Rightarrow> error + string" where
  "to_reminds localtz ical label priority =
     (if ical = [] then Inl AttributeError
      else ebind (emap (\<lambda>v. fst (to_remind localtz v label priority)) ical) (\<lambda>rs.
             Inr (concat rs)))"

text \<open>The hypothesis of the claims on runs of days: all-day dates, each the day after
  the one before.\<close>

fun consecutive_days :: "dateval list \<Rightarrow> bool" where
  "consecutive_days [] = True"
| "consecutive_days [Date a] = True"
| "consecutive_days (Date a # Date b # ds) = (b = a + 1 \<and> consecutive_days (Date b # ds))"
| "consecutive_days (v # ds) = False"

text \<open>The hypothesis of the claim on weeks: every date is seven days after the one
  before it, and the dates are of one kind (with times, the same time in the same
  zone).\<close>

fun seven_apart :: "dateval list \<Rightarrow> bool" where
  "seven_apart [] = True"
| "seven_apart [v] = True"
| "seven_apart (v # w # ds) = (w = shift_days v 7 \<and> seven_apart (w # ds))"

subsection \<open>Names for the parts of a command\<close>

text \<open>The clauses before and after the place of the span of days, for an event whose
  rule, if it has one, was converted to \<open>trigdates\<close>.\<close>

definition clauses_before :: "vevent \<Rightarrow> dateval \<Rightarrow> trig option \<Rightarrow> int option \<Rightarrow> string list" where
  "clauses_before w start trigdates priority =
     [''REM''] @
     (if \<not> has_rdate w \<and> \<not> (case trigdates of Some (Expr x) \<Rightarrow> True | _ \<Rightarrow> False)
      then [py_replace (strftime_b_d_Y start) '' 0'' '' ''] else []) @
     (case priority of None \<Rightarrow> [] | Some p \<Rightarrow> if p \<noteq> 0 then [''PRIORITY '' @ py_str p] else []) @
     (case trigdates of Some (Clauses cs) \<Rightarrow> cs | _ \<Rightarrow> [])"

definition clauses_after :: "vevent \<Rightarrow> trig option \<Rightarrow> string list \<Rightarrow> string list" where
  "clauses_after w trigdates m =
     (if has_rdate w
      then (case rruleset w of Some rs \<Rightarrow> [parse_rdate (rs_rdate rs)] | None \<Rightarrow> [])
      else (case trigdates of Some (Expr x) \<Rightarrow> [x] | _ \<Rightarrow> [])) @ m"

definition rule_converts :: "vevent \<Rightarrow> trig option \<Rightarrow> bool" where
  "rule_converts w trigdates =
     ((if has_rrule w
       then (case rruleset w of
               None \<Rightarrow> Inl AttributeError
             | Some rs \<Rightarrow> ebind (parse_rruleset rs) (\<lambda>t. Inr (Some t)))
       else Inr None) = Inr trigdates)"

subsection \<open>The substitutions of a message\<close>



subsection \<open>The files and the lock\<close>

text \<open>
  The object keeps the known files (the keys of \<open>_icals\<close>), its time zone and a lock;
  the files are on disk. A method returns the state afterwards and \<open>None\<close> when it
  returned, or what it raised. \<open>readlines\<close> of a file opened through \<open>codecs\<close> cuts at
  every line boundary that \<open>str.splitlines\<close> knows and keeps the line ends.
\<close>

record remind_state =
  icals :: "string \<rightharpoonup> vevent list"
  localtz :: int
  lock :: bool
  disk :: "string \<rightharpoonup> string"

text \<open>\<open>del xs[i]\<close> and \<open>xs[i] = v\<close> at an index that \<open>xs[i]\<close> has accepted.\<close>

definition norm_index :: "'a list \<Rightarrow> int \<Rightarrow> nat" where
  "norm_index xs i = (if i < 0 then nat (int (length xs) + i) else nat i)"

definition py_del :: "'a list \<Rightarrow> int \<Rightarrow> 'a list" where
  "py_del xs i = take (norm_index xs i) xs @ drop (Suc (norm_index xs i)) xs"

definition py_set :: "'a list \<Rightarrow> int \<Rightarrow> 'a \<Rightarrow> 'a list" where
  "py_set xs i v = xs[norm_index xs i := v]"

text \<open>\<open>append(ical, filename)\<close>. The file is opened for appending, which creates it,
  before the text is computed.\<close>

definition append_event ::
  "vevent list \<Rightarrow> string \<Rightarrow> remind_state \<Rightarrow> error option \<times> remind_state" where
  "append_event ical filename st =
     (if icals st filename = None then (None, st)
      else if lock st then (Some NeverReturns, st)
      else
        (let old = (case disk st filename of None \<Rightarrow> [] | Some c \<Rightarrow> c);
             st1 = st\<lparr>lock := True, disk := (disk st)(filename \<mapsto> old)\<rparr>
         in case to_reminds (localtz st) ical None None of
              Inl e \<Rightarrow> (Some e, st1)
            | Inr t \<Rightarrow> (None, st1\<lparr>lock := False, disk := (disk st)(filename \<mapsto> old @ t)\<rparr>)))"

text \<open>\<open>remove(name, filename)\<close>.\<close>

definition remove_event ::
  "string \<Rightarrow> string \<Rightarrow> remind_state \<Rightarrow> error option \<times> remind_state" where
  "remove_event name filename st =
     (if icals st filename = None then (None, st)
      else
        (let uid = uid_parts name in
         if length uid \<noteq> 2 then (None, st)
         else
           (case py_int (uid ! 0) of
              Inl e \<Rightarrow> (Some e, st)
            | Inr n \<Rightarrow>
                (let line = n - 1 in
                 if lock st then (Some NeverReturns, st)
                 else
                   (let st1 = st\<lparr>lock := True\<rparr> in
                    case readlines (disk st) filename of
                      Inl e \<Rightarrow> (Some e, st1)
                    | Inr rem \<Rightarrow>
                        (case py_index rem line of
                           Inl e \<Rightarrow> (Some e, st1)
                         | Inr l \<Rightarrow>
                             if sha1_hexdigest l = uid ! 1 then
                               (None, st1\<lparr>lock := False,
                                  disk := (disk st)(filename \<mapsto> concat (py_del rem line))\<rparr>)
                             else (None, st1\<lparr>lock := False\<rparr>)))))))"

text \<open>\<open>replace(name, ical, filename)\<close>.\<close>

definition replace_event ::
  "string \<Rightarrow> vevent list \<Rightarrow> string \<Rightarrow> remind_state \<Rightarrow> error option \<times> remind_state" where
  "replace_event name ical filename st =
     (if icals st filename = None then (None, st)
      else
        (let uid = uid_parts name in
         if length uid \<noteq> 2 then (None, st)
         else
           (case py_int (uid ! 0) of
              Inl e \<Rightarrow> (Some e, st)
            | Inr n \<Rightarrow>
                (let line = n - 1 in
                 if lock st then (Some NeverReturns, st)
                 else
                   (let st1 = st\<lparr>lock := True\<rparr> in
                    case readlines (disk st) filename of
                      Inl e \<Rightarrow> (Some e, st1)
                    | Inr rem \<Rightarrow>
                        (case py_index rem line of
                           Inl e \<Rightarrow> (Some e, st1)
                         | Inr l \<Rightarrow>
                             if sha1_hexdigest l = uid ! 1 then
                               (case to_reminds (localtz st) ical None None of
                                  Inl e \<Rightarrow> (Some e, st1)
                                | Inr t \<Rightarrow>
                                    (None, st1\<lparr>lock := False,
                                       disk := (disk st)(filename \<mapsto>
                                                 concat (py_set rem line t))\<rparr>))
                             else (None, st1\<lparr>lock := False\<rparr>)))))))"

subsection \<open>Example values\<close>

text \<open>A Remind object that knows one file of two lines, in a zone one hour east of
  UTC, and a calendar of one all-day event.\<close>

definition example_event :: vevent where
  "example_event =
     new_vevent\<lparr>dtstart := Some (Date (ymd2ord 2024 1 1)),
                dtend := Some (Date (ymd2ord 2024 1 2)), summary := Some ''Meeting''\<rparr>"

definition example_state :: remind_state where
  "example_state =
     \<lparr>icals = [''cal.rem'' \<mapsto> []], localtz = 60, lock = False,
      disk = [''cal.rem'' \<mapsto> ''MSG a\<newline>MSG b\<newline>'']\<rparr>"

definition holiday_record :: event where
  "holiday_record =
     \<lparr>ev_dtstart = map (\<lambda>k. Date (ymd2ord 2024 1 1 + k)) [0, 1, 2, 3, 4],
      ev_duration = None, ev_msg = ''Holiday'', ev_location = None,
      ev_description = None, ev_uid = ''3-0000@example.org''\<rparr>"

definition holiday_event :: vevent where
  "holiday_event =
     new_vevent\<lparr>dtstart := Some (Date (ymd2ord 2024 1 1)),
                dtend := Some (Date (ymd2ord 2024 1 6)), summary := Some ''Holiday''\<rparr>"

definition two_day_event :: vevent where
  "two_day_event =
     new_vevent\<lparr>dtstart := Some (Date (ymd2ord 2024 1 1)),
                dtend := Some (Date (ymd2ord 2024 1 3)), summary := Some ''Meeting''\<rparr>"

definition weekly_days :: "dateval list" where
  "weekly_days = [Date (ymd2ord 2024 1 1), Date (ymd2ord 2024 1 8), Date (ymd2ord 2024 1 15)]"

definition weekly_rule :: rruleset where
  "weekly_rule = counted_rule WEEKLY 3 (Date (ymd2ord 2024 1 1))"

text \<open>An event of two days that also has a daily rule of three days, an event of two
  days without a summary, and the record of three dates a week apart.\<close>

definition ruled_event :: vevent where
  "ruled_event =
     new_vevent\<lparr>dtstart := Some (Date (ymd2ord 2024 1 1)),
                dtend := Some (Date (ymd2ord 2024 1 3)), summary := Some ''Meeting'',
                rruleset := Some (counted_rule DAILY 3 (Date (ymd2ord 2024 1 1)))\<rparr>"

definition nameless_event :: vevent where
  "nameless_event =
     new_vevent\<lparr>dtstart := Some (Date (ymd2ord 2024 1 1)),
                dtend := Some (Date (ymd2ord 2024 1 3))\<rparr>"

definition weekly_record :: event where
  "weekly_record =
     \<lparr>ev_dtstart = weekly_days, ev_duration = None, ev_msg = ''Class'',
      ev_location = None, ev_description = None, ev_uid = ''4-0000@example.org''\<rparr>"




text \<open>Expansion records for one line of the file \<open>mylife.rem\<close>: the record of the
  specification, the record of a timed reminder as the module reads it, and the record
  of the specification with its date as year, month and day.\<close>

definition spec_record :: string where
  "spec_record = ''# 1 1 mylife.rem 1/1/2024 * * 600 * Meeting at Office''"

definition timed_record :: string where
  "timed_record = ''# 1 1 mylife.rem 2024/1/1 * * * 600 10:00am Meeting at Office''"

definition dated_record :: string where
  "dated_record = ''# 1 1 mylife.rem 2024/1/1 * * 600 * Meeting at Office''"

definition mylife_disk :: "string \<rightharpoonup> string" where
  "mylife_disk = [''mylife.rem'' \<mapsto> ''REM Jan 1 2024 AT 10:00 MSG Meeting at Office\<newline>'']"

section \<open>Properties\<close>

subsection \<open>Strings, digits and digests\<close>

lemma py_split_single_none:
  "c \<notin> set a \<Longrightarrow> py_split a [c] = [a]"
  by (induction a) auto

lemma py_split_single_first:
  "c \<notin> set a \<Longrightarrow> py_split (a @ c # b) [c] = a # py_split b [c]"
  by (induction a) auto

lemma of_char_hex_char:
  "d < 16 \<Longrightarrow> of_char (hex_char d) = (if d < 10 then 48 + d else 87 + d)"
  by (simp add: hex_char_def)

lemma hex_digits_chars:
  "c \<in> set (hex_digits k n) \<Longrightarrow> c \<noteq> CHR ''-'' \<and> c \<noteq> CHR ''@''"
proof (induction k arbitrary: n)
  case 0
  then show ?case by simp
next
  case (Suc k)
  have "hex_char (n mod 16) \<noteq> CHR ''-'' \<and> hex_char (n mod 16) \<noteq> CHR ''@''"
  proof -
    have "n mod 16 < 16" by simp
    then have "(of_char (hex_char (n mod 16)) :: nat) \<noteq> 45 \<and> (of_char (hex_char (n mod 16)) :: nat) \<noteq> 64"
      by (simp add: of_char_hex_char)
    then show ?thesis by auto
  qed
  with Suc show ?case by auto
qed

lemma length_hex_digits: "length (hex_digits k n) = k"
  by (induction k arbitrary: n) auto

lemma length_sha1_hexdigest: "length (sha1_hexdigest t) = 40"
  by (simp add: sha1_hexdigest_def hex_word_def length_hex_digits split: prod.splits)

lemma sha1_hexdigest_chars:
  "c \<in> set (sha1_hexdigest t) \<Longrightarrow> c \<noteq> CHR ''-'' \<and> c \<noteq> CHR ''@''"
  by (auto simp: sha1_hexdigest_def hex_word_def split: prod.splits dest: hex_digits_chars)

lemma of_char_digit_char: "d < 10 \<Longrightarrow> of_char (digit_char d) = 48 + d"
  by (simp add: digit_char_def)

lemma isdigit_digit_char: "d < 10 \<Longrightarrow> isdigit (digit_char d)"
  by (simp add: isdigit_def of_char_digit_char)

lemma digit_val_digit_char: "d < 10 \<Longrightarrow> digit_val (digit_char d) = int d"
  by (simp add: digit_val_def of_char_digit_char)

lemma nat_str_digits: "list_all isdigit (nat_str n)"
proof (induction n rule: nat_str.induct)
  case (1 n)
  show ?case
  proof (cases "n < 10")
    case True
    then show ?thesis by (subst nat_str.simps) (simp add: isdigit_digit_char)
  next
    case False
    with 1 show ?thesis by (subst nat_str.simps) (simp add: isdigit_digit_char)
  qed
qed

lemma nat_str_nonempty: "nat_str n \<noteq> []"
  by (subst nat_str.simps) simp

lemma digits_val_append: "digits_val acc (xs @ [c]) = digits_val acc xs * 10 + digit_val c"
  by (induction xs arbitrary: acc) auto

lemma digits_val_nat_str: "digits_val 0 (nat_str n) = int n"
proof (induction n rule: nat_str.induct)
  case (1 n)
  show ?case
  proof (cases "n < 10")
    case True
    then show ?thesis by (subst nat_str.simps) (simp add: digit_val_digit_char)
  next
    case False
    with 1 have "digits_val 0 (nat_str (n div 10)) = int (n div 10)" by simp
    with False show ?thesis
      by (subst nat_str.simps) (simp add: digits_val_append digit_val_digit_char zdiv_int zmod_int)
  qed
qed

lemma isdigit_not_space: "isdigit c \<Longrightarrow> \<not> int_space c"
  by (auto simp: isdigit_def int_space_def)

lemma isdigit_not_sign:
  "isdigit c \<Longrightarrow> c \<noteq> CHR ''-'' \<and> c \<noteq> CHR ''+'' \<and> c \<noteq> CHR ''@'' \<and> c \<noteq> CHR ''_''"
  by (auto simp: isdigit_def)

lemma int_strip_digits:
  assumes "list_all isdigit ds"
  shows "rev (dropWhile int_space (rev (dropWhile int_space ds))) = ds"
proof (cases ds rule: rev_cases)
  case Nil
  then show ?thesis by simp
next
  case (snoc ys y)
  with assms have l: "\<not> int_space y" by (simp add: isdigit_not_space)
  from assms have "ds = [] \<or> \<not> int_space (hd ds)"
    by (cases ds) (auto simp: isdigit_not_space)
  then have "dropWhile int_space ds = ds" by (cases ds) auto
  with snoc l show ?thesis by simp
qed

lemma grouped_digits_plain: "list_all isdigit ds \<Longrightarrow> ds \<noteq> [] \<Longrightarrow> grouped_digits ds"
proof (induction ds rule: grouped_digits.induct)
  case 1
  then show ?case by simp
next
  case (2 c)
  then show ?case by simp
next
  case (3 c d cs)
  from "3.prems" have d: "d \<noteq> CHR ''_''" using isdigit_not_sign [of d] by simp
  with 3 show ?case by simp
qed

lemma filter_underscore_digits:
  "list_all isdigit ds \<Longrightarrow> filter (\<lambda>c. c \<noteq> CHR ''_'') ds = ds"
  using isdigit_not_sign by (induction ds) auto

lemma py_int_digits:
  assumes "list_all isdigit ds" "ds \<noteq> []"
  shows "py_int ds = Inr (digits_val 0 ds)"
proof -
  from assms have "hd ds \<noteq> CHR ''-'' \<and> hd ds \<noteq> CHR ''+''"
    by (cases ds) (auto dest: isdigit_not_sign)
  with assms show ?thesis
    by (simp add: py_int_def int_strip_digits grouped_digits_plain filter_underscore_digits
        Let_def)
qed

lemma py_int_py_str: "0 \<le> n \<Longrightarrow> py_int (py_str n) = Inr n"
  by (simp add: py_str_def py_int_digits nat_str_digits nat_str_nonempty digits_val_nat_str)

lemma py_str_chars: "0 \<le> n \<Longrightarrow> c \<in> set (py_str n) \<Longrightarrow> c \<noteq> CHR ''-'' \<and> c \<noteq> CHR ''@''"
  using nat_str_digits [of "nat n"] isdigit_not_sign [of c]
  by (auto simp: py_str_def list_all_iff)

lemma uid_parts_gen_uid:
  assumes "0 \<le> n"
  shows "uid_parts (gen_uid fqdn (py_str n) text) = [py_str n, sha1_hexdigest text]
         \<and> py_int (py_str n) = Inr n"
proof -
  let ?h = "sha1_hexdigest text"
  have a: "CHR ''@'' \<notin> set (py_str n @ ''-'' @ ?h)"
    using assms py_str_chars [of n] sha1_hexdigest_chars [of _ "text"] by auto
  have "py_split ((py_str n @ ''-'' @ ?h) @ CHR ''@'' # fqdn) ''@''
          = (py_str n @ ''-'' @ ?h) # py_split fqdn ''@''"
    using a by (rule py_split_single_first)
  then have h: "hd (py_split (gen_uid fqdn (py_str n) text) ''@'') = py_str n @ ''-'' @ ?h"
    by (simp add: gen_uid_def)
  have b: "CHR ''-'' \<notin> set (py_str n)" using assms py_str_chars [of n] by auto
  have c: "CHR ''-'' \<notin> set ?h" using sha1_hexdigest_chars [of _ "text"] by auto
  have "py_split (py_str n @ CHR ''-'' # ?h) ''-'' = py_str n # py_split ?h ''-''"
    using b by (rule py_split_single_first)
  also have "py_split ?h ''-'' = [?h]" using c by (rule py_split_single_none)
  finally have "uid_parts (gen_uid fqdn (py_str n) text) = [py_str n, ?h]"
    by (simp add: uid_parts_def h)
  with assms show ?thesis by (simp add: py_int_py_str)
qed

text \<open>
  Claim C5. For a positive line number \<open>n\<close> and any text of the line, the identity that
  \<open>_gen_uid\<close> builds is taken apart again by the parse of \<open>remove\<close> and
  \<open>replace\<close>: cutting at the first \<open>@\<close> and splitting the rest on \<open>-\<close> gives exactly
  two parts, the decimal text of \<open>n\<close>, which \<open>int\<close> reads back as \<open>n\<close>, and the SHA-1
  hex digest of the UTF-8 bytes of the text.
\<close>

theorem gen_uid_roundtrip:
  assumes "0 < n"
  shows "uid_parts (gen_uid fqdn (py_str n) text) = [py_str n, sha1_hexdigest text]
         \<and> py_int (py_str n) = Inr n"
  using assms uid_parts_gen_uid [of n fqdn "text"] by simp

theorem gen_uid_roundtrip_witness:
  "uid_parts (gen_uid ''box.example.org'' (py_str 7) ''REM Jan 1 2024 MSG Meeting'')
     = [py_str 7, sha1_hexdigest ''REM Jan 1 2024 MSG Meeting'']
   \<and> py_int (py_str 7) = Inr 7"
  using gen_uid_roundtrip [of 7 "''box.example.org''" "''REM Jan 1 2024 MSG Meeting''"] by simp

subsection \<open>Removing and replacing a line\<close>

lemma unlock_free: "\<not> lock st \<Longrightarrow> st\<lparr>lock := False\<rparr> = st"
  by (cases st) simp

lemma py_index_last: "xs \<noteq> [] \<Longrightarrow> py_index xs (- 1) = Inr (last xs)"
  by (cases xs rule: rev_cases) (auto simp: py_index_def nat_add_distrib)

lemma py_index_beyond: "int (length xs) < n \<Longrightarrow> py_index xs (n - 1) = Inl IndexError"
  by (simp add: py_index_def)

lemma py_del_last: "xs \<noteq> [] \<Longrightarrow> py_del xs (- 1) = butlast xs"
  by (cases xs rule: rev_cases) (auto simp: py_del_def norm_index_def)

lemma py_set_last: "xs \<noteq> [] \<Longrightarrow> py_set xs (- 1) v = butlast xs @ [v]"
  by (cases xs rule: rev_cases) (auto simp: py_set_def norm_index_def)

lemma py_int_zero: "py_int ''0'' = Inr 0"
  by code_simp

lemma ex_lines: "readlines (disk example_state) ''cal.rem'' = Inr [''MSG a\<newline>'', ''MSG b\<newline>'']"
  by code_simp

lemma ex_known: "icals example_state ''cal.rem'' \<noteq> None"
  by code_simp

lemma ex_free: "\<not> lock example_state"
  by code_simp

lemma ex_parts1: "uid_parts ''1-0000@example.org'' = [''1'', ''0000'']"
  by code_simp

lemma ex_parts5: "uid_parts ''5-0000@example.org'' = [''5'', ''0000'']"
  by code_simp

lemma ex_int1: "py_int ''1'' = Inr 1"
  by code_simp

lemma ex_int5: "py_int ''5'' = Inr 5"
  by code_simp

lemma ex_text: "to_reminds (localtz example_state) [example_event] None None = Inr ''REM Jan 1 2024 MSG Meeting\<newline>''"
  by code_simp

lemma ex_parts_bad: "length (uid_parts ''nodash@example.org'') \<noteq> 2"
  by code_simp
lemma ex_parts_bad3: "length (uid_parts ''a-b-c@example.org'') \<noteq> 2"
  by code_simp
lemma ex_parts_abc: "length (uid_parts ''abc-def@example.org'') = 2 \<and> py_int (uid_parts ''abc-def@example.org'' ! 0) = Inl ValueError"
  by code_simp

text \<open>
  Claim C6. When the identity splits into exactly two parts and its hash part differs
  from the SHA-1 digest of the line it addresses, \<open>remove\<close> and \<open>replace\<close> leave
  the content of every file as it was. The statement covers every path of the two
  methods: whenever the number part is read, the file is read and the line is there,
  the digest of that line is not the hash part.
\<close>

theorem stale_identity_leaves_file:
  assumes parts: "uid_parts name = [ns, h]"
    and stale: "\<And>n rem l. py_int ns = Inr n \<Longrightarrow> readlines (disk st) filename = Inr rem
                  \<Longrightarrow> py_index rem (n - 1) = Inr l \<Longrightarrow> h \<noteq> sha1_hexdigest l"
  shows "disk (snd (remove_event name filename st)) = disk st
         \<and> disk (snd (replace_event name ical filename st)) = disk st"
proof -
  have r: "disk (snd (remove_event name filename st)) = disk st"
    using stale by (auto simp: remove_event_def parts Let_def split: sum.splits)
  have p: "disk (snd (replace_event name ical filename st)) = disk st"
    using stale by (auto simp: replace_event_def parts Let_def split: sum.splits)
  from r p show ?thesis by simp
qed

theorem stale_identity_leaves_file_witness:
  "uid_parts ''1-0000@example.org'' = [''1'', ''0000'']
   \<and> readlines (disk example_state) ''cal.rem'' = Inr [''MSG a\<newline>'', ''MSG b\<newline>'']
   \<and> disk (snd (remove_event ''1-0000@example.org'' ''cal.rem'' example_state))
       = disk example_state
   \<and> disk (snd (replace_event ''1-0000@example.org'' [example_event] ''cal.rem''
               example_state)) = disk example_state"
proof -
  have stale: "\<And>n rem l. ''0000'' \<noteq> sha1_hexdigest l"
  proof
    fix l :: string
    assume "''0000'' = sha1_hexdigest l"
    then have "length ''0000'' = length (sha1_hexdigest l)" by simp
    then show False by (simp add: length_sha1_hexdigest)
  qed
  show ?thesis
    using stale_identity_leaves_file [OF ex_parts1, of example_state "''cal.rem''"
        "[example_event]"] stale ex_parts1 ex_lines
    by simp
qed

text \<open>
  Claim C7, as the specification states it, fails: an identity of two parts whose
  number part is not a number makes \<open>int\<close> raise ValueError, which reaches the caller.
\<close>

theorem remove_bad_number_counterexample:
  "fst (remove_event ''abc-def@example.org'' ''cal.rem'' example_state) = Some ValueError
   \<and> fst (replace_event ''abc-def@example.org'' [example_event] ''cal.rem'' example_state)
       = Some ValueError"
  by code_simp

text \<open>
  Claim C7, amended. When the part before \<open>@\<close> does not split on \<open>-\<close> into exactly two
  parts, \<open>remove\<close> and \<open>replace\<close> return at once: nothing is raised and the files and
  the lock are as before. When there are two parts and \<open>int\<close> rejects the first, the
  files and the lock are as before as well.
\<close>

theorem unparsed_identity_noop:
  "(length (uid_parts name) \<noteq> 2 \<longrightarrow>
      remove_event name filename st = (None, st)
      \<and> replace_event name ical filename st = (None, st))
   \<and> (\<forall>e. length (uid_parts name) = 2 \<and> py_int (uid_parts name ! 0) = Inl e \<longrightarrow>
      snd (remove_event name filename st) = st
      \<and> snd (replace_event name ical filename st) = st)"
  by (auto simp: remove_event_def replace_event_def Let_def)

theorem unparsed_identity_noop_witness:
  "remove_event ''nodash@example.org'' ''cal.rem'' example_state = (None, example_state)
   \<and> replace_event ''a-b-c@example.org'' [example_event] ''cal.rem'' example_state
       = (None, example_state)
   \<and> snd (remove_event ''abc-def@example.org'' ''cal.rem'' example_state) = example_state
   \<and> snd (replace_event ''abc-def@example.org'' [example_event] ''cal.rem'' example_state)
       = example_state"
  using unparsed_identity_noop [of "''nodash@example.org''" "''cal.rem''" example_state
      "[example_event]"]
    unparsed_identity_noop [of "''a-b-c@example.org''" "''cal.rem''" example_state
      "[example_event]"]
    unparsed_identity_noop [of "''abc-def@example.org''" "''cal.rem''" example_state
      "[example_event]"]
    ex_parts_bad ex_parts_bad3 ex_parts_abc
  by blast

text \<open>
  Claim C9. On a known file, with the lock free, an identity of two parts whose number
  \<open>n\<close> is read by \<open>int\<close> and exceeds the number of lines of the file makes the lookup of
  the line raise IndexError after the lock was taken: the method ends with the lock
  held and the files as they were. From then on \<open>append\<close> on a known file, and
  \<open>remove\<close> and \<open>replace\<close> with an identity that reaches the lock, never return.
\<close>

theorem short_file_leaves_lock_held:
  assumes known: "icals st filename \<noteq> None"
    and free: "\<not> lock st"
    and parts: "uid_parts name = [ns, h]"
    and num: "py_int ns = Inr n"
    and lines: "readlines (disk st) filename = Inr rem"
    and short: "int (length rem) < n"
  shows "remove_event name filename st = (Some IndexError, st\<lparr>lock := True\<rparr>)
         \<and> replace_event name ical filename st = (Some IndexError, st\<lparr>lock := True\<rparr>)
         \<and> (\<forall>ical' name' f'. icals st f' \<noteq> None \<longrightarrow>
              append_event ical' f' (st\<lparr>lock := True\<rparr>) = (Some NeverReturns, st\<lparr>lock := True\<rparr>)
              \<and> (length (uid_parts name') = 2 \<and> (\<exists>k. py_int (uid_parts name' ! 0) = Inr k) \<longrightarrow>
                   remove_event name' f' (st\<lparr>lock := True\<rparr>)
                     = (Some NeverReturns, st\<lparr>lock := True\<rparr>)
                   \<and> replace_event name' ical' f' (st\<lparr>lock := True\<rparr>)
                     = (Some NeverReturns, st\<lparr>lock := True\<rparr>)))"
proof -
  have i: "py_index rem (n - 1) = Inl IndexError" using short by (rule py_index_beyond)
  have a: "remove_event name filename st = (Some IndexError, st\<lparr>lock := True\<rparr>)"
    using known free by (auto simp: remove_event_def parts num lines i Let_def)
  have b: "replace_event name ical filename st = (Some IndexError, st\<lparr>lock := True\<rparr>)"
    using known free by (auto simp: replace_event_def parts num lines i Let_def)
  have c: "\<forall>ical' name' f'. icals st f' \<noteq> None \<longrightarrow>
              append_event ical' f' (st\<lparr>lock := True\<rparr>) = (Some NeverReturns, st\<lparr>lock := True\<rparr>)
              \<and> (length (uid_parts name') = 2 \<and> (\<exists>k. py_int (uid_parts name' ! 0) = Inr k) \<longrightarrow>
                   remove_event name' f' (st\<lparr>lock := True\<rparr>)
                     = (Some NeverReturns, st\<lparr>lock := True\<rparr>)
                   \<and> replace_event name' ical' f' (st\<lparr>lock := True\<rparr>)
                     = (Some NeverReturns, st\<lparr>lock := True\<rparr>))"
    by (auto simp: append_event_def remove_event_def replace_event_def Let_def)
  from a b c show ?thesis by blast
qed

theorem short_file_leaves_lock_held_witness:
  "remove_event ''5-0000@example.org'' ''cal.rem'' example_state
     = (Some IndexError, example_state\<lparr>lock := True\<rparr>)
   \<and> replace_event ''5-0000@example.org'' [example_event] ''cal.rem'' example_state
     = (Some IndexError, example_state\<lparr>lock := True\<rparr>)
   \<and> append_event [example_event] ''cal.rem'' (example_state\<lparr>lock := True\<rparr>)
     = (Some NeverReturns, example_state\<lparr>lock := True\<rparr>)
   \<and> remove_event ''1-0000@example.org'' ''cal.rem'' (example_state\<lparr>lock := True\<rparr>)
     = (Some NeverReturns, example_state\<lparr>lock := True\<rparr>)"
proof -
  have short: "int (length [''MSG a\<newline>'', ''MSG b\<newline>'']) < 5" by simp
  have two: "length (uid_parts ''1-0000@example.org'') = 2
             \<and> (\<exists>k. py_int (uid_parts ''1-0000@example.org'' ! 0) = Inr k)"
    by (simp add: ex_parts1 ex_int1)
  show ?thesis
    using short_file_leaves_lock_held [OF ex_known ex_free ex_parts5 ex_int5 ex_lines short,
        of "[example_event]"] ex_known two
    by blast
qed

text \<open>
  Claim C10. An identity whose number part is \<open>0\<close> is accepted: the index \<open>-1\<close> is the
  last line of the file. When the hash part is the digest of that line, \<open>remove\<close>
  writes the file without its last line and \<open>replace\<close> writes it with the new text in
  the place of the last line; both return with the lock free.
\<close>

theorem line_zero_addresses_last_line:
  assumes known: "icals st filename \<noteq> None"
    and free: "\<not> lock st"
    and lines: "readlines (disk st) filename = Inr rem"
    and nonempty: "rem \<noteq> []"
    and parts: "uid_parts name = [''0'', sha1_hexdigest (last rem)]"
  shows "remove_event name filename st
           = (None, st\<lparr>disk := (disk st)(filename \<mapsto> concat (butlast rem))\<rparr>)
         \<and> (\<forall>t. to_reminds (localtz st) ical None None = Inr t \<longrightarrow>
              replace_event name ical filename st
                = (None, st\<lparr>disk := (disk st)(filename \<mapsto> concat (butlast rem @ [t]))\<rparr>))"
proof -
  have i: "py_index rem (- 1) = Inr (last rem)" using nonempty by (rule py_index_last)
  have u: "st\<lparr>lock := False\<rparr> = st" using free by (rule unlock_free)
  have s: "\<And>d. st\<lparr>lock := True, lock := False, disk := d\<rparr> = st\<lparr>disk := d\<rparr>"
    using u by (metis remind_state.surjective remind_state.update_convs(3) remind_state.update_convs(4))
  from known obtain y where k: "icals st filename = Some y" by auto
  have a: "remove_event name filename st
           = (None, st\<lparr>disk := (disk st)(filename \<mapsto> concat (butlast rem))\<rparr>)"
    using free nonempty
    by (simp add: k remove_event_def parts py_int_zero lines i Let_def py_del_last s)
  have b: "\<forall>t. to_reminds (localtz st) ical None None = Inr t \<longrightarrow>
              replace_event name ical filename st
                = (None, st\<lparr>disk := (disk st)(filename \<mapsto> concat (butlast rem @ [t]))\<rparr>)"
    using free nonempty
    by (simp add: k replace_event_def parts py_int_zero lines i Let_def py_set_last s)
  from a b show ?thesis by simp
qed

theorem line_zero_addresses_last_line_witness:
  "remove_event (gen_uid ''example.org'' ''0'' ''MSG b\<newline>'') ''cal.rem'' example_state
     = (None, example_state\<lparr>disk := (disk example_state)(''cal.rem'' \<mapsto> ''MSG a\<newline>'')\<rparr>)
   \<and> replace_event (gen_uid ''example.org'' ''0'' ''MSG b\<newline>'') [example_event] ''cal.rem''
       example_state
     = (None, example_state\<lparr>disk := (disk example_state)
          (''cal.rem'' \<mapsto> ''MSG a\<newline>REM Jan 1 2024 MSG Meeting\<newline>'')\<rparr>)"
proof -
  have z: "py_str 0 = ''0''" by code_simp
  have parts: "uid_parts (gen_uid ''example.org'' ''0'' ''MSG b\<newline>'')
                 = [''0'', sha1_hexdigest (last [''MSG a\<newline>'', ''MSG b\<newline>''])]"
    using uid_parts_gen_uid [of 0 "''example.org''" "''MSG b\<newline>''"] by (simp add: z)
  have ne: "[''MSG a\<newline>'', ''MSG b\<newline>''] \<noteq> []" by simp
  show ?thesis
    using line_zero_addresses_last_line [OF ex_known ex_free ex_lines ne parts,
        of "[example_event]"] ex_text
    by simp
qed

subsection \<open>Runs of days and the change of the event\<close>

lemma td_days_whole: "td_days (k * 86400) = k"
  by (simp add: td_days_def)

lemma td_days_diff: "td_days (e * 86400 - s * 86400) = e - s"
  using td_days_whole [of "e - s"] by (simp add: algebra_simps)

lemma gen_msg_dtend: "gen_msg (w\<lparr>dtend := x\<rparr>) label = gen_msg w label"
  by (simp add: gen_msg_def cong: option.case_cong)

lemma has_rrule_dtend: "has_rrule (w\<lparr>dtend := x\<rparr>) = has_rrule w"
  by (simp add: has_rrule_def)

lemma has_rdate_dtend: "has_rdate (w\<lparr>dtend := x\<rparr>) = has_rdate w"
  by (simp add: has_rdate_def)

lemma rule_converts_cases:
  "rule_converts w trigdates \<Longrightarrow>
     (\<not> has_rrule w \<and> trigdates = None)
     \<or> (has_rrule w \<and> (\<exists>rs t. rruleset w = Some rs \<and> parse_rruleset rs = Inr t
                              \<and> trigdates = Some t))"
  by (auto simp: rule_converts_def ebind_def split: if_splits option.splits sum.splits)

lemma to_remind_span_any:
  assumes start: "dtstart w = Some (Date s)"
    and rule: "rule_converts w trigdates"
    and lo: "1 \<le> s" and hi: "e \<le> MAXORDINAL" and long: "s + 1 < e"
  shows "to_remind tz (w\<lparr>dtend := Some (Date e)\<rparr>) label priority
         = (ebind (gen_msg w label) (\<lambda>m.
              Inr (py_join '' '' (clauses_before w (Date s) trigdates priority
                   @ [''*1'', until_clause (Date (e - 1))]
                   @ clauses_after w trigdates m) @ ''\<newline>'')),
            w\<lparr>dtend := Some (Date (e - 1))\<rparr>)"
proof -
  have d: "event_duration (w\<lparr>dtend := Some (Date e)\<rparr>) = Inr ((e - s) * 86400)"
    by (simp add: event_duration_def start)
  have a: "add_days (Date e) (- 1) = Inr (Date (e - 1))"
    using lo hi long by simp
  from rule_converts_cases [OF rule] show ?thesis
  proof
    assume "\<not> has_rrule w \<and> trigdates = None"
    then show ?thesis
      using long
      by (simp add: to_remind_def has_rrule_dtend has_rdate_dtend gen_msg_dtend start d a
          td_days_whole td_days_diff ebind_def Let_def clauses_before_def clauses_after_def
          del: add_days.simps split: sum.splits)
  next
    assume "has_rrule w \<and> (\<exists>rs t. rruleset w = Some rs \<and> parse_rruleset rs = Inr t
                              \<and> trigdates = Some t)"
    then obtain rs t where "has_rrule w" "rruleset w = Some rs" "parse_rruleset rs = Inr t"
      "trigdates = Some t" by blast
    then show ?thesis
      using long
      by (simp add: to_remind_def has_rrule_dtend has_rdate_dtend gen_msg_dtend start d a
          td_days_whole td_days_diff ebind_def Let_def clauses_before_def clauses_after_def
          del: add_days.simps split: sum.splits)
  qed
qed

lemma to_remind_one_day_any:
  assumes start: "dtstart w = Some (Date s)"
    and rule: "rule_converts w trigdates"
  shows "to_remind tz (w\<lparr>dtend := Some (Date (s + 1))\<rparr>) label priority
         = (ebind (gen_msg w label) (\<lambda>m.
              Inr (py_join '' '' (clauses_before w (Date s) trigdates priority
                   @ clauses_after w trigdates m) @ ''\<newline>'')),
            w\<lparr>dtend := Some (Date (s + 1))\<rparr>)"
proof -
  have d: "event_duration (w\<lparr>dtend := Some (Date (s + 1))\<rparr>) = Inr (1 * 86400)"
    by (simp add: event_duration_def start)
  from rule_converts_cases [OF rule] show ?thesis
  proof
    assume "\<not> has_rrule w \<and> trigdates = None"
    then show ?thesis
      by (simp add: to_remind_def has_rrule_dtend has_rdate_dtend gen_msg_dtend start d
          td_days_def ebind_def Let_def clauses_before_def clauses_after_def
          split: sum.splits)
  next
    assume "has_rrule w \<and> (\<exists>rs t. rruleset w = Some rs \<and> parse_rruleset rs = Inr t
                              \<and> trigdates = Some t)"
    then obtain rs t where "has_rrule w" "rruleset w = Some rs" "parse_rruleset rs = Inr t"
      "trigdates = Some t" by blast
    then show ?thesis
      by (simp add: to_remind_def has_rrule_dtend has_rdate_dtend gen_msg_dtend start d
          td_days_def ebind_def Let_def clauses_before_def clauses_after_def
          split: sum.splits)
  qed
qed

lemma ebind_Inr: "ebind (Inr x) f = f x"
  by (simp add: ebind_def)

lemma to_remind_span:
  assumes start: "dtstart w = Some (Date s)"
    and msg: "gen_msg w label = Inr m"
    and rule: "rule_converts w trigdates"
    and lo: "1 \<le> s" and hi: "e \<le> MAXORDINAL" and long: "s + 1 < e"
  shows "to_remind tz (w\<lparr>dtend := Some (Date e)\<rparr>) label priority
         = (Inr (py_join '' '' (clauses_before w (Date s) trigdates priority
                   @ [''*1'', until_clause (Date (e - 1))]
                   @ clauses_after w trigdates m) @ ''\<newline>''),
            w\<lparr>dtend := Some (Date (e - 1))\<rparr>)"
  using to_remind_span_any [OF start rule lo hi long, of tz label priority]
  by (simp only: msg ebind_Inr)

lemma dtend_same: "dtend w = Some x \<Longrightarrow> w\<lparr>dtend := Some x\<rparr> = w"
  by (cases w) simp

lemma py_index_first: "py_index (x # xs) 0 = Inr x"
  by (simp add: py_index_def)

lemma consecutive_tail:
  "consecutive_days (Date a # v # ds) \<Longrightarrow> v = Date (a + 1) \<and> consecutive_days (Date (a + 1) # ds)"
  by (cases v) auto

lemma consecutive_head: "consecutive_days (v # ds) \<Longrightarrow> \<exists>a. v = Date a"
  by (cases v; cases ds) auto

lemma consecutive_max:
  "consecutive_days (Date a # ds) \<Longrightarrow> max_from (Date a) ds = Inr (Date (a + int (length ds)))"
proof (induction ds arbitrary: a)
  case Nil
  then show ?case by simp
next
  case (Cons v ds)
  from consecutive_tail [OF Cons.prems]
  have v: "v = Date (a + 1)" and c: "consecutive_days (Date (a + 1) # ds)" by simp_all
  from Cons.IH [OF c] show ?case by (simp add: v)
qed

lemma consecutive_min:
  "consecutive_days (Date b # ds) \<Longrightarrow> a \<le> b \<Longrightarrow> min_from (Date a) ds = Inr (Date a)"
proof (induction ds arbitrary: b)
  case Nil
  then show ?case by simp
next
  case (Cons v ds)
  from consecutive_tail [OF Cons.prems(1)]
  have v: "v = Date (b + 1)" and c: "consecutive_days (Date (b + 1) # ds)" by simp_all
  from Cons.prems(2) have "a \<le> b + 1" by simp
  from Cons.IH [OF c this] Cons.prems(2) show ?case by (simp add: v)
qed

lemma consecutive_last:
  "consecutive_days (Date a # ds) \<Longrightarrow> last (Date a # ds) = Date (a + int (length ds))"
proof (induction ds arbitrary: a)
  case Nil
  then show ?case by simp
next
  case (Cons v ds)
  from consecutive_tail [OF Cons.prems]
  have v: "v = Date (a + 1)" and c: "consecutive_days (Date (a + 1) # ds)" by simp_all
  from Cons.IH [OF c] show ?case by (simp add: v)
qed

lemma gen_dtend_rrule_consecutive:
  assumes run: "consecutive_days ds" and two: "2 \<le> length ds"
    and lo: "1 \<le> ordinal (hd ds)" and hi: "ordinal (last ds) < MAXORDINAL"
  shows "gen_dtend_rrule ds v = Inr (v\<lparr>dtend := Some (Date (ordinal (last ds) + 1))\<rparr>)"
proof -
  from two obtain d rest where ds: "ds = d # rest" by (cases ds) auto
  from run ds consecutive_head obtain a where d: "d = Date a" by blast
  have run': "consecutive_days (Date a # rest)" using run ds d by simp
  have l: "last ds = Date (a + int (length rest))"
    using consecutive_last [OF run'] ds d by simp
  have mx: "py_max ds = Inr (Date (a + int (length rest)))"
    using consecutive_max [OF run'] by (simp add: py_max_def ds d)
  have mn: "py_min ds = Inr (Date a)"
    using consecutive_min [OF run', of a] by (simp add: py_min_def ds d)
  have sp: "sub_dateval (Date (a + int (length rest))) (Date a) = Inr (int (length rest) * 86400)"
    by simp
  have i0: "py_index ds 0 = Inr (Date a)" by (simp add: ds d py_index_first)
  have il: "py_index ds (- 1) = Inr (Date (a + int (length rest)))"
    using py_index_last [of ds] l ds by simp
  have ad: "add_days (Date (a + int (length rest))) 1 = Inr (Date (a + int (length rest) + 1))"
    using lo hi l ds d by simp
  have n: "int (length ds) - 1 = int (length rest)" by (simp add: ds)
  show ?thesis
    by (simp add: gen_dtend_rrule_def mx mn sp i0 il ad td_days_whole ebind_def l n
        del: sub_dateval.simps add_days.simps)
qed

lemma gen_vevent_consecutive:
  assumes run: "consecutive_days (ev_dtstart ev)" and two: "2 \<le> length (ev_dtstart ev)"
    and lo: "1 \<le> ordinal (hd (ev_dtstart ev))"
    and hi: "ordinal (last (ev_dtstart ev)) < MAXORDINAL"
  shows "\<exists>r. gen_vevent ev new_vevent = Inr r \<and> rruleset r = None
             \<and> dtstart r = Some (hd (ev_dtstart ev))
             \<and> dtend r = Some (Date (ordinal (last (ev_dtstart ev)) + 1))"
proof -
  from two obtain d rest where ds: "ev_dtstart ev = d # rest" by (cases "ev_dtstart ev") auto
  from run ds consecutive_head obtain a where d: "d = Date a" by metis
  have i0: "py_index (ev_dtstart ev) 0 = Inr (Date a)" by (simp add: ds d py_index_first)
  have len: "length (ev_dtstart ev) \<noteq> 1" "length (ev_dtstart ev) > 1" using two by simp_all
  have h: "hd (ev_dtstart ev) = Date a" by (simp add: ds d)
  show ?thesis
    using len
    by (simp add: gen_vevent_def i0 ebind_def Let_def h
        gen_dtend_rrule_consecutive [OF run two lo hi] new_vevent_def
        split: option.splits)
qed

text \<open>
  Claim C1. For a list of at least two all-day dates, each the day after the one before
  (so that the last is \<open>N - 1\<close> days after the first), \<open>_gen_dtend_rrule\<close> sets the end
  of the event to the day after the last date and touches nothing else; \<open>_gen_vevent\<close>
  from a new event gives an event without a recurrence rule. In the other direction,
  for an all-day event whose end \<open>e\<close> lies more than one day after its start,
  \<open>to_remind\<close> puts the clause \<open>*1\<close> and right after it \<open>UNTIL\<close> with the date \<open>e - 1\<close>,
  the stored end being exclusive. The dates are dates of the calendar: the first is
  day 1 or later and the day after the last exists.
\<close>

theorem consecutive_days_span:
  assumes run: "consecutive_days (ev_dtstart ev)" and two: "2 \<le> length (ev_dtstart ev)"
    and lo: "1 \<le> ordinal (hd (ev_dtstart ev))"
    and hi: "ordinal (last (ev_dtstart ev)) < MAXORDINAL"
    and start: "dtstart w = Some (Date s)" and stop: "dtend w = Some (Date e)"
    and first_day: "1 \<le> s" and last_day: "e \<le> MAXORDINAL" and long: "s + 1 < e"
    and msg: "gen_msg w label = Inr m"
    and rule: "rule_converts w trigdates"
  shows "gen_dtend_rrule (ev_dtstart ev) v
           = Inr (v\<lparr>dtend := Some (Date (ordinal (last (ev_dtstart ev)) + 1))\<rparr>)
         \<and> (\<exists>r. gen_vevent ev new_vevent = Inr r \<and> rruleset r = None
                \<and> dtstart r = Some (hd (ev_dtstart ev))
                \<and> dtend r = Some (Date (ordinal (last (ev_dtstart ev)) + 1)))
         \<and> to_remind tz w label priority
           = (Inr (py_join '' '' (clauses_before w (Date s) trigdates priority
                     @ [''*1'', until_clause (Date (e - 1))]
                     @ clauses_after w trigdates m) @ ''\<newline>''),
              w\<lparr>dtend := Some (Date (e - 1))\<rparr>)"
proof -
  have b: "to_remind tz w label priority
           = (Inr (py_join '' '' (clauses_before w (Date s) trigdates priority
                     @ [''*1'', until_clause (Date (e - 1))]
                     @ clauses_after w trigdates m) @ ''\<newline>''),
              w\<lparr>dtend := Some (Date (e - 1))\<rparr>)"
    using to_remind_span [OF start msg rule first_day last_day long, of tz priority]
    by (simp add: dtend_same [OF stop])
  from gen_dtend_rrule_consecutive [OF run two lo hi] gen_vevent_consecutive [OF run two lo hi] b
  show ?thesis by simp
qed

text \<open>
  Claim C8, amended. Take an all-day event whose start and end are dates of the
  calendar, whose end lies more than one day after its start, and whose recurrence
  rule, if it has one, converts without raising. \<open>to_remind\<close> changes the event it was
  given: afterwards its end is one day earlier, whether the call returns a command or
  raises because the message cannot be built (an event without a summary raises
  AttributeError after the change). A second call on the same event does not repeat the
  first. When the end was more than two days after the start, it gives the command of
  the first call with the \<open>UNTIL\<close> of the span one day earlier, and moves the end back
  by one more day. When the end was exactly two days after the start, it gives the
  command of the first call without the \<open>*1\<close> and the \<open>UNTIL\<close> of the span (the clauses
  that come from a recurrence rule of the event stay) and leaves the event as the first
  call left it.
\<close>

theorem to_remind_changes_event:
  assumes start: "dtstart w = Some (Date s)" and stop: "dtend w = Some (Date e)"
    and first_day: "1 \<le> s" and last_day: "e \<le> MAXORDINAL" and long: "s + 1 < e"
    and rule: "rule_converts w trigdates"
  shows "to_remind tz w label priority
           = (ebind (gen_msg w label) (\<lambda>m.
                Inr (py_join '' '' (clauses_before w (Date s) trigdates priority
                     @ [''*1'', until_clause (Date (e - 1))]
                     @ clauses_after w trigdates m) @ ''\<newline>'')),
              w\<lparr>dtend := Some (Date (e - 1))\<rparr>)
         \<and> (s + 2 < e \<longrightarrow>
              to_remind tz (snd (to_remind tz w label priority)) label priority
                = (ebind (gen_msg w label) (\<lambda>m.
                     Inr (py_join '' '' (clauses_before w (Date s) trigdates priority
                          @ [''*1'', until_clause (Date (e - 2))]
                          @ clauses_after w trigdates m) @ ''\<newline>'')),
                   w\<lparr>dtend := Some (Date (e - 2))\<rparr>))
         \<and> (e = s + 2 \<longrightarrow>
              to_remind tz (snd (to_remind tz w label priority)) label priority
                = (ebind (gen_msg w label) (\<lambda>m.
                     Inr (py_join '' '' (clauses_before w (Date s) trigdates priority
                          @ clauses_after w trigdates m) @ ''\<newline>'')),
                   w\<lparr>dtend := Some (Date (e - 1))\<rparr>))"
proof -
  have one: "to_remind tz w label priority
           = (ebind (gen_msg w label) (\<lambda>m.
                Inr (py_join '' '' (clauses_before w (Date s) trigdates priority
                     @ [''*1'', until_clause (Date (e - 1))]
                     @ clauses_after w trigdates m) @ ''\<newline>'')),
              w\<lparr>dtend := Some (Date (e - 1))\<rparr>)"
    using to_remind_span_any [OF start rule first_day last_day long, of tz label priority]
    by (simp add: dtend_same [OF stop])
  have two: "s + 2 < e \<longrightarrow>
              to_remind tz (w\<lparr>dtend := Some (Date (e - 1))\<rparr>) label priority
                = (ebind (gen_msg w label) (\<lambda>m.
                     Inr (py_join '' '' (clauses_before w (Date s) trigdates priority
                          @ [''*1'', until_clause (Date (e - 2))]
                          @ clauses_after w trigdates m) @ ''\<newline>'')),
                   w\<lparr>dtend := Some (Date (e - 2))\<rparr>)"
  proof
    assume "s + 2 < e"
    then have l: "s + 1 < e - 1" by simp
    have h: "e - 1 \<le> MAXORDINAL" using last_day by simp
    show "to_remind tz (w\<lparr>dtend := Some (Date (e - 1))\<rparr>) label priority
                = (ebind (gen_msg w label) (\<lambda>m.
                     Inr (py_join '' '' (clauses_before w (Date s) trigdates priority
                          @ [''*1'', until_clause (Date (e - 2))]
                          @ clauses_after w trigdates m) @ ''\<newline>'')),
                   w\<lparr>dtend := Some (Date (e - 2))\<rparr>)"
      using to_remind_span_any [OF start rule first_day h l, of tz label priority] by simp
  qed
  have three: "e = s + 2 \<longrightarrow>
              to_remind tz (w\<lparr>dtend := Some (Date (e - 1))\<rparr>) label priority
                = (ebind (gen_msg w label) (\<lambda>m.
                     Inr (py_join '' '' (clauses_before w (Date s) trigdates priority
                          @ clauses_after w trigdates m) @ ''\<newline>'')),
                   w\<lparr>dtend := Some (Date (e - 1))\<rparr>)"
  proof
    assume "e = s + 2"
    then have eq: "e - 1 = s + 1" by simp
    show "to_remind tz (w\<lparr>dtend := Some (Date (e - 1))\<rparr>) label priority
                = (ebind (gen_msg w label) (\<lambda>m.
                     Inr (py_join '' '' (clauses_before w (Date s) trigdates priority
                          @ clauses_after w trigdates m) @ ''\<newline>'')),
                   w\<lparr>dtend := Some (Date (e - 1))\<rparr>)"
      unfolding eq by (rule to_remind_one_day_any [OF start rule])
  qed
  from one two three show ?thesis by simp
qed

lemma holiday_run:
  "consecutive_days (ev_dtstart holiday_record)" "2 \<le> length (ev_dtstart holiday_record)"
  "1 \<le> ordinal (hd (ev_dtstart holiday_record))"
  "ordinal (last (ev_dtstart holiday_record)) < MAXORDINAL"
  by code_simp+

lemma holiday_facts:
  "dtstart holiday_event = Some (Date (ymd2ord 2024 1 1))"
  "dtend holiday_event = Some (Date (ymd2ord 2024 1 6))"
  "1 \<le> ymd2ord 2024 1 1" "ymd2ord 2024 1 6 \<le> MAXORDINAL"
  "ymd2ord 2024 1 1 + 1 < ymd2ord 2024 1 6"
  "gen_msg holiday_event None = Inr [''MSG'', ''Holiday'']"
  "rule_converts holiday_event None"
  by code_simp+

lemma holiday_values:
  "Date (ordinal (last (ev_dtstart holiday_record)) + 1) = Date (ymd2ord 2024 1 6)"
  "Date (ymd2ord 2024 1 6 - 1) = Date (ymd2ord 2024 1 5)"
  "Date (ymd2ord 2024 1 6 - 2) = Date (ymd2ord 2024 1 4)"
  "py_join '' '' (clauses_before holiday_event (Date (ymd2ord 2024 1 1)) None None
     @ [''*1'', until_clause (Date (ymd2ord 2024 1 5))]
     @ clauses_after holiday_event None [''MSG'', ''Holiday'']) @ ''\<newline>''
   = ''REM Jan 1 2024 *1 UNTIL Jan 5 2024 MSG Holiday\<newline>''"
  "py_join '' '' (clauses_before holiday_event (Date (ymd2ord 2024 1 1)) None None
     @ [''*1'', until_clause (Date (ymd2ord 2024 1 4))]
     @ clauses_after holiday_event None [''MSG'', ''Holiday'']) @ ''\<newline>''
   = ''REM Jan 1 2024 *1 UNTIL Jan 4 2024 MSG Holiday\<newline>''"
  by code_simp+

theorem consecutive_days_span_witness:
  "gen_dtend_rrule (ev_dtstart holiday_record) new_vevent
     = Inr (new_vevent\<lparr>dtend := Some (Date (ymd2ord 2024 1 6))\<rparr>)
   \<and> to_remind 60 holiday_event None None
     = (Inr ''REM Jan 1 2024 *1 UNTIL Jan 5 2024 MSG Holiday\<newline>'',
        holiday_event\<lparr>dtend := Some (Date (ymd2ord 2024 1 5))\<rparr>)"
  using consecutive_days_span [OF holiday_run holiday_facts, of new_vevent 60 None]
  by (simp only: holiday_values)

lemma two_day_facts:
  "dtstart two_day_event = Some (Date (ymd2ord 2024 1 1))"
  "dtend two_day_event = Some (Date (ymd2ord 2024 1 3))"
  "1 \<le> ymd2ord 2024 1 1" "ymd2ord 2024 1 3 \<le> MAXORDINAL"
  "ymd2ord 2024 1 1 + 1 < ymd2ord 2024 1 3"
  "rule_converts two_day_event None"
  by code_simp+

lemma ruled_facts:
  "dtstart ruled_event = Some (Date (ymd2ord 2024 1 1))"
  "dtend ruled_event = Some (Date (ymd2ord 2024 1 3))"
  "1 \<le> ymd2ord 2024 1 1" "ymd2ord 2024 1 3 \<le> MAXORDINAL"
  "ymd2ord 2024 1 1 + 1 < ymd2ord 2024 1 3"
  "rule_converts ruled_event (Some (Clauses [''*1'', ''UNTIL Jan 3 2024'']))"
  by code_simp+

lemma nameless_facts:
  "dtstart nameless_event = Some (Date (ymd2ord 2024 1 1))"
  "dtend nameless_event = Some (Date (ymd2ord 2024 1 3))"
  "1 \<le> ymd2ord 2024 1 1" "ymd2ord 2024 1 3 \<le> MAXORDINAL"
  "ymd2ord 2024 1 1 + 1 < ymd2ord 2024 1 3"
  "rule_converts nameless_event None"
  by code_simp+

lemma holiday_texts:
  "Date (ymd2ord 2024 1 6 - 1) = Date (ymd2ord 2024 1 5)"
  "Date (ymd2ord 2024 1 6 - 2) = Date (ymd2ord 2024 1 4)"
  "ebind (gen_msg holiday_event None) (\<lambda>m.
     Inr (py_join '' '' (clauses_before holiday_event (Date (ymd2ord 2024 1 1)) None None
       @ [''*1'', until_clause (Date (ymd2ord 2024 1 5))]
       @ clauses_after holiday_event None m) @ ''\<newline>''))
   = Inr ''REM Jan 1 2024 *1 UNTIL Jan 5 2024 MSG Holiday\<newline>''"
  "ebind (gen_msg holiday_event None) (\<lambda>m.
     Inr (py_join '' '' (clauses_before holiday_event (Date (ymd2ord 2024 1 1)) None None
       @ [''*1'', until_clause (Date (ymd2ord 2024 1 4))]
       @ clauses_after holiday_event None m) @ ''\<newline>''))
   = Inr ''REM Jan 1 2024 *1 UNTIL Jan 4 2024 MSG Holiday\<newline>''"
  by code_simp+

lemma two_day_texts:
  "Date (ymd2ord 2024 1 3 - 1) = Date (ymd2ord 2024 1 2)"
  "ymd2ord 2024 1 3 = ymd2ord 2024 1 1 + 2"
  "ebind (gen_msg two_day_event None) (\<lambda>m.
     Inr (py_join '' '' (clauses_before two_day_event (Date (ymd2ord 2024 1 1)) None None
       @ clauses_after two_day_event None m) @ ''\<newline>''))
   = Inr ''REM Jan 1 2024 MSG Meeting\<newline>''"
  "ebind (gen_msg ruled_event None) (\<lambda>m.
     Inr (py_join '' '' (clauses_before ruled_event (Date (ymd2ord 2024 1 1))
            (Some (Clauses [''*1'', ''UNTIL Jan 3 2024''])) None
       @ clauses_after ruled_event (Some (Clauses [''*1'', ''UNTIL Jan 3 2024''])) m)
       @ ''\<newline>''))
   = Inr ''REM Jan 1 2024 *1 UNTIL Jan 3 2024 MSG Meeting\<newline>''"
  "ebind (gen_msg nameless_event None) (\<lambda>m.
     Inr (py_join '' '' (clauses_before nameless_event (Date (ymd2ord 2024 1 1)) None None
       @ [''*1'', until_clause (Date (ymd2ord 2024 1 2))]
       @ clauses_after nameless_event None m) @ ''\<newline>''))
   = Inl AttributeError"
  by code_simp+

theorem to_remind_changes_event_witness:
  "to_remind 60 holiday_event None None
     = (Inr ''REM Jan 1 2024 *1 UNTIL Jan 5 2024 MSG Holiday\<newline>'',
        holiday_event\<lparr>dtend := Some (Date (ymd2ord 2024 1 5))\<rparr>)
   \<and> to_remind 60 (snd (to_remind 60 holiday_event None None)) None None
     = (Inr ''REM Jan 1 2024 *1 UNTIL Jan 4 2024 MSG Holiday\<newline>'',
        holiday_event\<lparr>dtend := Some (Date (ymd2ord 2024 1 4))\<rparr>)
   \<and> to_remind 60 (snd (to_remind 60 two_day_event None None)) None None
     = (Inr ''REM Jan 1 2024 MSG Meeting\<newline>'',
        two_day_event\<lparr>dtend := Some (Date (ymd2ord 2024 1 2))\<rparr>)
   \<and> to_remind 60 (snd (to_remind 60 ruled_event None None)) None None
     = (Inr ''REM Jan 1 2024 *1 UNTIL Jan 3 2024 MSG Meeting\<newline>'',
        ruled_event\<lparr>dtend := Some (Date (ymd2ord 2024 1 2))\<rparr>)
   \<and> to_remind 60 nameless_event None None
     = (Inl AttributeError, nameless_event\<lparr>dtend := Some (Date (ymd2ord 2024 1 2))\<rparr>)"
proof -
  have far: "ymd2ord 2024 1 1 + 2 < ymd2ord 2024 1 6" by code_simp
  note h = to_remind_changes_event [OF holiday_facts(1-5,7), of 60 None None]
  note t = to_remind_changes_event [OF two_day_facts, of 60 None None]
  note r = to_remind_changes_event [OF ruled_facts, of 60 None None]
  note n = to_remind_changes_event [OF nameless_facts, of 60 None None]
  have a1: "to_remind 60 holiday_event None None
     = (Inr ''REM Jan 1 2024 *1 UNTIL Jan 5 2024 MSG Holiday\<newline>'',
        holiday_event\<lparr>dtend := Some (Date (ymd2ord 2024 1 5))\<rparr>)"
    using h [THEN conjunct1] by (simp only: holiday_texts)
  have a2: "to_remind 60 (snd (to_remind 60 holiday_event None None)) None None
     = (Inr ''REM Jan 1 2024 *1 UNTIL Jan 4 2024 MSG Holiday\<newline>'',
        holiday_event\<lparr>dtend := Some (Date (ymd2ord 2024 1 4))\<rparr>)"
    using h [THEN conjunct2, THEN conjunct1, THEN mp, OF far] by (simp only: holiday_texts)
  have b: "to_remind 60 (snd (to_remind 60 two_day_event None None)) None None
     = (Inr ''REM Jan 1 2024 MSG Meeting\<newline>'',
        two_day_event\<lparr>dtend := Some (Date (ymd2ord 2024 1 2))\<rparr>)"
    using t [THEN conjunct2, THEN conjunct2, THEN mp, OF two_day_texts(2)]
    by (simp only: two_day_texts(1,3))
  have c: "to_remind 60 (snd (to_remind 60 ruled_event None None)) None None
     = (Inr ''REM Jan 1 2024 *1 UNTIL Jan 3 2024 MSG Meeting\<newline>'',
        ruled_event\<lparr>dtend := Some (Date (ymd2ord 2024 1 2))\<rparr>)"
    using r [THEN conjunct2, THEN conjunct2, THEN mp, OF two_day_texts(2)]
    by (simp only: two_day_texts(1,4))
  have d: "to_remind 60 nameless_event None None
     = (Inl AttributeError, nameless_event\<lparr>dtend := Some (Date (ymd2ord 2024 1 2))\<rparr>)"
    using n [THEN conjunct1] by (simp only: two_day_texts(1,5))
  show ?thesis by (rule conjI [OF a1 conjI [OF a2 conjI [OF b conjI [OF c d]]]])
qed

text \<open>
  Claim C8, as stated, fails for an event of exactly two days: the first call leaves a
  span of one day, and the second call emits neither \<open>*1\<close> nor \<open>UNTIL\<close>.
\<close>

theorem second_call_counterexample:
  "fst (to_remind 60 two_day_event None None)
     = Inr ''REM Jan 1 2024 *1 UNTIL Jan 2 2024 MSG Meeting\<newline>''
   \<and> fst (to_remind 60 (snd (to_remind 60 two_day_event None None)) None None)
     = Inr ''REM Jan 1 2024 MSG Meeting\<newline>''"
  by code_simp

subsection \<open>Weekly dates\<close>

lemma shift_days_0: "shift_days v 0 = v"
  by (cases v) simp_all

lemma shift_days_add: "shift_days (shift_days v a) b = shift_days v (a + b)"
  by (cases v) simp_all

lemma ordinal_shift_days: "ordinal (shift_days v k) = ordinal v + k"
  by (cases v) simp_all

lemma dateval_less_shift:
  "dateval_less (shift_days v a) (shift_days v b) = Inr (a < b)"
  by (cases v) (simp_all add: utc_seconds_def)

lemma sub_dateval_shift: "sub_dateval (shift_days v k) v = Inr (k * 86400)"
  by (cases v) (simp_all add: utc_seconds_def algebra_simps)

lemma seven_apart_tail:
  "seven_apart (v # w # ds) \<Longrightarrow> w = shift_days v 7 \<and> seven_apart (w # ds)"
  by auto

lemma seven_apart_max:
  "seven_apart (v # ds) \<Longrightarrow> max_from v ds = Inr (shift_days v (7 * int (length ds)))"
proof (induction ds arbitrary: v)
  case Nil
  then show ?case by (simp add: shift_days_0)
next
  case (Cons w ds)
  from seven_apart_tail [OF Cons.prems]
  have w: "w = shift_days v 7" and s: "seven_apart (w # ds)" by blast+
  have "dateval_less v w = Inr True"
    using dateval_less_shift [of v 0 7] by (simp add: w shift_days_0)
  with Cons.IH [OF s] show ?case by (simp add: w shift_days_add algebra_simps)
qed

lemma seven_apart_min:
  "seven_apart (u # ds) \<Longrightarrow> u = shift_days v k \<Longrightarrow> 0 \<le> k \<Longrightarrow> min_from v ds = Inr v"
proof (induction ds arbitrary: u k)
  case Nil
  then show ?case by simp
next
  case (Cons w ds)
  from seven_apart_tail [OF Cons.prems(1)]
  have w7: "w = shift_days u 7" and s: "seven_apart (w # ds)" by blast+
  have w: "w = shift_days v (k + 7)" by (simp add: w7 Cons.prems(2) shift_days_add)
  have "dateval_less w v = Inr False"
    using dateval_less_shift [of v "k + 7" 0] Cons.prems(3) by (simp add: w shift_days_0)
  moreover have "min_from v ds = Inr v"
    using Cons.IH [OF s w] Cons.prems(3) by simp
  ultimately show ?case by simp
qed

lemma seven_apart_weekly: "seven_apart (v # ds) \<Longrightarrow> weekly_from v ds = Inr True"
proof (induction ds arbitrary: v)
  case Nil
  then show ?case by simp
next
  case (Cons w ds)
  from seven_apart_tail [OF Cons.prems]
  have w: "w = shift_days v 7" and s: "seven_apart (w # ds)" by blast+
  from Cons.IH [OF s] show ?case
    by (simp add: w sub_dateval_shift ebind_def td_days_def)
qed

lemma seven_apart_last:
  "seven_apart (v # ds) \<Longrightarrow> last (v # ds) = shift_days v (7 * int (length ds))"
proof (induction ds arbitrary: v)
  case Nil
  then show ?case by (simp add: shift_days_0)
next
  case (Cons w ds)
  from seven_apart_tail [OF Cons.prems]
  have w: "w = shift_days v 7" and s: "seven_apart (w # ds)" by blast+
  from Cons.IH [OF s] show ?case by (simp add: w shift_days_add algebra_simps)
qed

lemma seven_apart_map:
  "seven_apart (v # ds) \<Longrightarrow>
     map (\<lambda>k. shift_days v (7 * int k)) [0..<Suc (length ds)] = v # ds"
proof (induction ds arbitrary: v)
  case Nil
  then show ?case by (simp add: shift_days_0)
next
  case (Cons w ds)
  from seven_apart_tail [OF Cons.prems]
  have w: "w = shift_days v 7" and s: "seven_apart (w # ds)" by blast+
  have "map (\<lambda>k. shift_days v (7 * int k)) [0..<Suc (Suc (length ds))]
          = shift_days v 0 # map (\<lambda>k. shift_days v (7 * int (Suc k))) [0..<Suc (length ds)]"
    by (simp only: upt_conv_Cons [of 0] map_Suc_upt [symmetric] list.map map_map o_def)
       simp
  also have "map (\<lambda>k. shift_days v (7 * int (Suc k))) [0..<Suc (length ds)]
          = map (\<lambda>k. shift_days w (7 * int k)) [0..<Suc (length ds)]"
    by (simp add: w shift_days_add algebra_simps)
  also have "\<dots> = w # ds" by (rule Cons.IH [OF s])
  finally show ?case by (simp add: shift_days_0)
qed

lemma gen_dtend_rrule_weekly:
  assumes week: "seven_apart ds" and two: "2 \<le> length ds"
  shows "gen_dtend_rrule ds v = set_counted_rule WEEKLY (length ds) v"
proof -
  from two obtain d rest where ds: "ds = d # rest" by (cases ds) auto
  have week': "seven_apart (d # rest)" using week ds by simp
  have r: "rest \<noteq> []" using two ds by auto
  have mx: "py_max ds = Inr (shift_days d (7 * int (length rest)))"
    using seven_apart_max [OF week'] by (simp add: py_max_def ds)
  have mn: "py_min ds = Inr d"
    using seven_apart_min [OF week', of d 0] by (simp add: py_min_def ds shift_days_0)
  have sp: "sub_dateval (shift_days d (7 * int (length rest))) d
              = Inr (7 * int (length rest) * 86400)"
    by (rule sub_dateval_shift)
  have t: "td_days (7 * int (length rest) * 86400) = 7 * int (length rest)"
    "td_days (604800 * int (length rest)) = 7 * int (length rest)"
    by (simp_all add: td_days_def)
  have n: "7 * int (length rest) \<noteq> int (length ds) - 1" using r by (simp add: ds)
  have wk: "weekly ds = Inr True"
    using seven_apart_weekly [OF week'] by (simp add: weekly_def ds)
  show ?thesis
    using n by (simp add: gen_dtend_rrule_def mx mn sp t wk ebind_def)
qed

lemma gen_vevent_weekly:
  assumes week: "seven_apart (ev_dtstart ev)" and two: "2 \<le> length (ev_dtstart ev)"
  shows "\<exists>r. gen_vevent ev new_vevent = Inr r
             \<and> dtstart r = Some (hd (ev_dtstart ev))
             \<and> rruleset r
                 = Some (counted_rule WEEKLY (length (ev_dtstart ev)) (hd (ev_dtstart ev)))"
proof -
  from two obtain d rest where ds: "ev_dtstart ev = d # rest" by (cases "ev_dtstart ev") auto
  have i0: "py_index (ev_dtstart ev) 0 = Inr d" by (simp add: ds py_index_def)
  have len: "length (ev_dtstart ev) \<noteq> 1" "length (ev_dtstart ev) > 1" using two by simp_all
  have h: "hd (ev_dtstart ev) = d" by (simp add: ds)
  show ?thesis
    using len
    by (simp add: gen_vevent_def i0 ebind_def Let_def h
        gen_dtend_rrule_weekly [OF week two] set_counted_rule_def new_vevent_def
        split: option.splits)
qed

lemma parse_rruleset_weekly:
  assumes rules: "rs_rrule rs = r # others" and freq: "rr_freq r = WEEKLY"
    and days: "length (rr_byweekday r) \<le> 1" and until: "rr_until r = None"
    and count: "rr_count r = Some (int n)" and two: "2 \<le> n"
    and dates: "rs_dates rs = Some occ" and len: "length occ = n"
  shows "parse_rruleset rs = Inr (Clauses [''*7'', until_clause (occ ! (n - 1))])"
proof -
  have i0: "py_index (rs_rrule rs) 0 = Inr r" by (simp add: rules py_index_def)
  have occ: "occ \<noteq> []" using two len by auto
  have il: "py_index occ (- 1) = Inr (occ ! (n - 1))"
    using py_index_last [OF occ] len by (simp add: last_conv_nth occ)
  have d: "\<not> 1 < length (rr_byweekday r)" using days by simp
  show ?thesis
    using two d
    by (simp add: parse_rruleset_def i0 freq WEEKLY_def DAILY_def until count dates il
        ebind_def Let_def)
qed

lemma counted_rule_weekly_dates:
  assumes week: "seven_apart ds" and two: "2 \<le> length ds"
    and valid: "list_all (\<lambda>v. 1 \<le> ordinal v \<and> ordinal v \<le> MAXORDINAL) ds"
  shows "rs_dates (counted_rule WEEKLY (length ds) (hd ds)) = Some ds"
proof -
  from two obtain d rest where ds: "ds = d # rest" by (cases ds) auto
  have week': "seven_apart (d # rest)" using week ds by simp
  have m: "map (\<lambda>k. shift_days (hd ds) (7 * int k)) [0..<length ds] = ds"
    using seven_apart_map [OF week'] by (simp add: ds)
  have f: "filter (\<lambda>v. 1 \<le> ordinal v \<and> ordinal v \<le> MAXORDINAL) ds = ds"
    using valid by (simp add: list_all_iff)
  have rd: "rule_dates (hd ds) 7 (length ds) = ds"
    unfolding rule_dates_def m by (rule f)
  show ?thesis
    by (simp add: counted_rule_def Let_def rd)
qed

text \<open>
  Claim C2. For a list of at least two dates of the calendar, each seven days after the
  one before, \<open>_gen_vevent\<close> from a new event gives an event that starts at the first
  date and holds a rule set whose one rule has the weekly frequency and the count \<open>N\<close>,
  the length of the list. \<open>_gen_dtend_rrule\<close> on such a list stores that rule through
  the setter of the event it is given: for an event without a start it raises
  AttributeError, and an event that starts at \<open>s\<close> holds afterwards the weekly rule
  with the count \<open>N\<close> from \<open>s\<close>. For a rule set whose first rule is weekly, names at
  most one weekday, has no until date and has the count \<open>N\<close>, and which yields \<open>N\<close>
  dates, \<open>_parse_rruleset\<close> returns exactly the two clauses \<open>*7\<close> and \<open>UNTIL\<close> with the
  \<open>N\<close>th date. For the rule set that \<open>_gen_vevent\<close> stores that date is the last date
  of the list.
\<close>

theorem weekly_dates_rule:
  assumes week: "seven_apart (ev_dtstart ev)" and two: "2 \<le> length (ev_dtstart ev)"
    and valid: "list_all (\<lambda>v. 1 \<le> ordinal v \<and> ordinal v \<le> MAXORDINAL) (ev_dtstart ev)"
    and rules: "rs_rrule rs = r # others" and freq: "rr_freq r = WEEKLY"
    and days: "length (rr_byweekday r) \<le> 1" and until: "rr_until r = None"
    and count: "rr_count r = Some (int n)" and some: "2 \<le> n"
    and dates: "rs_dates rs = Some occ" and len: "length occ = n"
  shows "(\<exists>e. gen_vevent ev new_vevent = Inr e
              \<and> dtstart e = Some (hd (ev_dtstart ev))
              \<and> rruleset e
                  = Some (counted_rule WEEKLY (length (ev_dtstart ev)) (hd (ev_dtstart ev))))
         \<and> gen_dtend_rrule (ev_dtstart ev) v
           = (case dtstart v of
                None \<Rightarrow> Inl AttributeError
              | Some s \<Rightarrow>
                  Inr (v\<lparr>rruleset := Some (counted_rule WEEKLY (length (ev_dtstart ev)) s)\<rparr>))
         \<and> map rr_freq (rs_rrule (counted_rule WEEKLY (length (ev_dtstart ev)) s)) = [WEEKLY]
         \<and> map rr_count (rs_rrule (counted_rule WEEKLY (length (ev_dtstart ev)) s))
             = [Some (int (length (ev_dtstart ev)))]
         \<and> parse_rruleset rs = Inr (Clauses [''*7'', until_clause (occ ! (n - 1))])
         \<and> parse_rruleset (counted_rule WEEKLY (length (ev_dtstart ev)) (hd (ev_dtstart ev)))
             = Inr (Clauses [''*7'', until_clause (last (ev_dtstart ev))])"
proof -
  let ?ds = "ev_dtstart ev"
  let ?c = "counted_rule WEEKLY (length ?ds) (hd ?ds)"
  have a: "gen_dtend_rrule ?ds v
           = (case dtstart v of
                None \<Rightarrow> Inl AttributeError
              | Some s \<Rightarrow> Inr (v\<lparr>rruleset := Some (counted_rule WEEKLY (length ?ds) s)\<rparr>))"
    by (simp add: gen_dtend_rrule_weekly [OF week two] set_counted_rule_def)
  have b: "map rr_freq (rs_rrule (counted_rule WEEKLY (length ?ds) s)) = [WEEKLY]"
    "map rr_count (rs_rrule (counted_rule WEEKLY (length ?ds) s)) = [Some (int (length ?ds))]"
    by (simp_all add: counted_rule_def Let_def)
  have c: "parse_rruleset rs = Inr (Clauses [''*7'', until_clause (occ ! (n - 1))])"
    using rules freq days until count some dates len by (rule parse_rruleset_weekly)
  obtain r' where r': "rs_rrule ?c = r' # []" "rr_freq r' = WEEKLY"
    "length (rr_byweekday r') \<le> 1" "rr_until r' = None"
    "rr_count r' = Some (int (length ?ds))"
    by (simp add: counted_rule_def Let_def)
  have ne: "?ds \<noteq> []" using two by auto
  have "parse_rruleset ?c = Inr (Clauses [''*7'', until_clause (?ds ! (length ?ds - 1))])"
    using r' two counted_rule_weekly_dates [OF week two valid] refl
    by (rule parse_rruleset_weekly)
  then have d: "parse_rruleset ?c = Inr (Clauses [''*7'', until_clause (last ?ds)])"
    by (simp add: last_conv_nth ne)
  from gen_vevent_weekly [OF week two] a b c d show ?thesis by simp
qed

lemma weekly_days_facts:
  "seven_apart (ev_dtstart weekly_record)" "2 \<le> length (ev_dtstart weekly_record)"
  "list_all (\<lambda>v. 1 \<le> ordinal v \<and> ordinal v \<le> MAXORDINAL) (ev_dtstart weekly_record)"
  by code_simp+

lemma weekly_rule_facts:
  "rs_rrule weekly_rule = hd (rs_rrule weekly_rule) # []"
  "rr_freq (hd (rs_rrule weekly_rule)) = WEEKLY"
  "length (rr_byweekday (hd (rs_rrule weekly_rule))) \<le> 1"
  "rr_until (hd (rs_rrule weekly_rule)) = None"
  "rr_count (hd (rs_rrule weekly_rule)) = Some (int 3)"
  "2 \<le> (3::nat)"
  "rs_dates weekly_rule = Some weekly_days"
  "length weekly_days = 3"
  by code_simp+

lemma weekly_values:
  "counted_rule WEEKLY (length (ev_dtstart weekly_record)) (hd (ev_dtstart weekly_record))
     = weekly_rule"
  "until_clause (weekly_days ! (3 - 1)) = ''UNTIL Jan 15 2024''"
  "counted_rule WEEKLY (length (ev_dtstart weekly_record)) (Date (ymd2ord 2024 1 1))
     = weekly_rule"
  "hd (ev_dtstart weekly_record) = Date (ymd2ord 2024 1 1)"
  "ev_dtstart weekly_record = weekly_days"
  "int (length (ev_dtstart weekly_record)) = 3"
  by code_simp+

lemma weekly_cases:
  "(case dtstart new_vevent of
      None \<Rightarrow> Inl AttributeError
    | Some s \<Rightarrow> Inr (new_vevent\<lparr>rruleset :=
                      Some (counted_rule WEEKLY (length weekly_days) s)\<rparr>))
   = Inl AttributeError"
  "(case dtstart example_event of
      None \<Rightarrow> Inl AttributeError
    | Some s \<Rightarrow> Inr (example_event\<lparr>rruleset :=
                      Some (counted_rule WEEKLY (length weekly_days) s)\<rparr>))
   = Inr (example_event\<lparr>rruleset := Some weekly_rule\<rparr>)"
  by code_simp+

theorem weekly_dates_rule_witness:
  "(\<exists>e. gen_vevent weekly_record new_vevent = Inr e
        \<and> dtstart e = Some (Date (ymd2ord 2024 1 1))
        \<and> rruleset e = Some weekly_rule)
   \<and> gen_dtend_rrule weekly_days new_vevent = Inl AttributeError
   \<and> gen_dtend_rrule weekly_days example_event
     = Inr (example_event\<lparr>rruleset := Some weekly_rule\<rparr>)
   \<and> map rr_freq (rs_rrule weekly_rule) = [WEEKLY]
   \<and> map rr_count (rs_rrule weekly_rule) = [Some 3]
   \<and> parse_rruleset weekly_rule = Inr (Clauses [''*7'', ''UNTIL Jan 15 2024''])"
proof -
  note t = weekly_dates_rule [OF weekly_days_facts weekly_rule_facts]
  have a: "\<exists>e. gen_vevent weekly_record new_vevent = Inr e
        \<and> dtstart e = Some (Date (ymd2ord 2024 1 1))
        \<and> rruleset e = Some weekly_rule"
    using t [THEN conjunct1] by (simp only: weekly_values(4,3))
  have b: "gen_dtend_rrule weekly_days new_vevent = Inl AttributeError"
    using t [of new_vevent, THEN conjunct2, THEN conjunct1]
    by (simp only: weekly_cases weekly_values(5))
  have c: "gen_dtend_rrule weekly_days example_event
     = Inr (example_event\<lparr>rruleset := Some weekly_rule\<rparr>)"
    using t [of example_event, THEN conjunct2, THEN conjunct1]
    by (simp only: weekly_cases weekly_values(5))
  have d: "map rr_freq (rs_rrule weekly_rule) = [WEEKLY]"
    using t [of _ "Date (ymd2ord 2024 1 1)", THEN conjunct2, THEN conjunct2, THEN conjunct1]
    by (simp only: weekly_values(3))
  have e: "map rr_count (rs_rrule weekly_rule) = [Some 3]"
    using t [of _ "Date (ymd2ord 2024 1 1)",
        THEN conjunct2, THEN conjunct2, THEN conjunct2, THEN conjunct1]
    by (simp only: weekly_values(3,6))
  have f: "parse_rruleset weekly_rule = Inr (Clauses [''*7'', ''UNTIL Jan 15 2024''])"
    using t [THEN conjunct2, THEN conjunct2, THEN conjunct2, THEN conjunct2, THEN conjunct1]
    by (simp only: weekly_values(2))
  show ?thesis by (rule conjI [OF a conjI [OF b conjI [OF c conjI [OF d conjI [OF e f]]]]])
qed

subsection \<open>One expansion record\<close>

lemma ebind_Inl: "ebind (Inl e) f = Inl e"
  by (simp add: ebind_def)

lemma spec_fields:
  "py_split spec_record ''\<newline>#'' = [spec_record]"
  "py_split (py_rstrip (py_replace spec_record ''\<newline>'' '' '')) '' ''
     = [''#'', ''1'', ''1'', ''mylife.rem'', ''1/1/2024'', ''*'', ''*'', ''600'', ''*'',
        ''Meeting'', ''at'', ''Office'']"
  "spec_record \<noteq> []"
  by code_simp+

lemma spec_index:
  "py_index [''#'', ''1'', ''1'', ''mylife.rem'', ''1/1/2024'', ''*'', ''*'', ''600'', ''*'',
      ''Meeting'', ''at'', ''Office''] 4 = Inr ''1/1/2024''"
  "py_index [''#'', ''1'', ''1'', ''mylife.rem'', ''1/1/2024'', ''*'', ''*'', ''600'', ''*'',
      ''Meeting'', ''at'', ''Office''] 8 = Inr ''*''"
  "emap py_int (py_split ''1/1/2024'' ''/'') = Inr [1, 1, 2024]"
  "py_index [1, 1, 2024 :: int] 0 = Inr 1"
  "py_index [1, 1, 2024 :: int] 1 = Inr 1"
  "py_index [1, 1, 2024 :: int] 2 = Inr 2024"
  "mk_date 1 1 2024 = Inl ValueError"
  by code_simp+

lemma spec_line_raises:
  "parse_remind_line tz fqdn
     [''#'', ''1'', ''1'', ''mylife.rem'', ''1/1/2024'', ''*'', ''*'', ''600'', ''*'',
      ''Meeting'', ''at'', ''Office''] text = Inl ValueError"
  unfolding parse_remind_line_def spec_index ebind_Inr
  by (simp add: spec_index ebind_Inr ebind_Inl)

lemma spec_record_raises:
  "\<exists>e. parse_record tz fqdn files lines [] spec_record = Inl e"
  unfolding parse_record_def spec_fields Let_def
  by (simp add: ebind_def spec_line_raises split: sum.splits)

lemma spec_remind_raises:
  "\<exists>e. parse_remind tz fqdn files spec_record lines = Inl e"
proof -
  from spec_record_raises [of tz fqdn files lines] obtain e
    where "parse_record tz fqdn files lines [] spec_record = Inl e" by blast
  then show ?thesis
    unfolding parse_remind_def spec_fields
    by (simp add: spec_fields ebind_Inl)
qed

lemma timed_fields:
  "py_split timed_record ''\<newline>#'' = [timed_record]"
  "py_split (py_rstrip (py_replace timed_record ''\<newline>'' '' '')) '' ''
     = [''#'', ''1'', ''1'', ''mylife.rem'', ''2024/1/1'', ''*'', ''*'', ''*'', ''600'',
        ''10:00am'', ''Meeting'', ''at'', ''Office'']"
  "timed_record \<noteq> []"
  by code_simp+

lemma timed_index:
  "py_index [''#'', ''1'', ''1'', ''mylife.rem'', ''2024/1/1'', ''*'', ''*'', ''*'', ''600'',
      ''10:00am'', ''Meeting'', ''at'', ''Office''] 4 = Inr ''2024/1/1''"
  "py_index [''#'', ''1'', ''1'', ''mylife.rem'', ''2024/1/1'', ''*'', ''*'', ''*'', ''600'',
      ''10:00am'', ''Meeting'', ''at'', ''Office''] 8 = Inr ''600''"
  "py_index [''#'', ''1'', ''1'', ''mylife.rem'', ''2024/1/1'', ''*'', ''*'', ''*'', ''600'',
      ''10:00am'', ''Meeting'', ''at'', ''Office''] 7 = Inr ''*''"
  "py_index [''#'', ''1'', ''1'', ''mylife.rem'', ''2024/1/1'', ''*'', ''*'', ''*'', ''600'',
      ''10:00am'', ''Meeting'', ''at'', ''Office''] 3 = Inr ''mylife.rem''"
  "py_index [''#'', ''1'', ''1'', ''mylife.rem'', ''2024/1/1'', ''*'', ''*'', ''*'', ''600'',
      ''10:00am'', ''Meeting'', ''at'', ''Office''] 2 = Inr ''1''"
  "emap py_int (py_split ''2024/1/1'' ''/'') = Inr [2024, 1, 1]"
  "py_index [2024, 1, 1 :: int] 0 = Inr 2024"
  "py_index [2024, 1, 1 :: int] 1 = Inr 1"
  "py_index [2024, 1, 1 :: int] 2 = Inr 1"
  "py_int ''600'' = Inr 600"
  "py_int ''1'' = Inr 1"
  "''600'' \<noteq> ''*''"
  "check_date_fields 2024 1 1"
  "(600 :: int) div 60 = 10"
  "(600 :: int) mod 60 = 0"
  by code_simp+

lemma timed_message:
  "py_join '' '' (drop 10 [''#'', ''1'', ''1'', ''mylife.rem'', ''2024/1/1'', ''*'', ''*'', ''*'',
      ''600'', ''10:00am'', ''Meeting'', ''at'', ''Office'']) = ''Meeting at Office''"
  "py_in '' at '' ''Meeting at Office''"
  "py_rsplit1 ''Meeting at Office'' '' at '' = [''Meeting'', ''Office'']"
  by code_simp+

lemma timed_line:
  "parse_remind_line tz fqdn
     [''#'', ''1'', ''1'', ''mylife.rem'', ''2024/1/1'', ''*'', ''*'', ''*'', ''600'',
      ''10:00am'', ''Meeting'', ''at'', ''Office''] text
   = Inr \<lparr>ev_dtstart = [DateTime (ymd2ord 2024 1 1) 36000 tz], ev_duration = None,
          ev_msg = ''Meeting'', ev_location = Some ''Office'',
          ev_description = (if py_in ''%\"'' text then Some (gen_description text) else None),
          ev_uid = gen_uid fqdn ''1'' text\<rparr>"
  unfolding parse_remind_line_def timed_index ebind_Inr
  by (simp add: timed_index ebind_Inr mk_datetime_def timed_message Let_def)

lemma timed_vevent:
  "gen_vevent
     \<lparr>ev_dtstart = [DateTime (ymd2ord 2024 1 1) 36000 tz], ev_duration = None,
      ev_msg = ''Meeting'', ev_location = Some ''Office'',
      ev_description = None, ev_uid = u\<rparr> new_vevent
   = Inr (new_vevent\<lparr>dtstart := Some (DateTime (ymd2ord 2024 1 1) 36000 tz),
            summary := Some ''Meeting'', uid := Some u, location := Some ''Office'',
            valarm := Some \<lparr>al_trigger = - 600, al_action = ''DISPLAY'',
                             al_description = ''Meeting''\<rparr>,
            dtend := Some (DateTime (ymd2ord 2024 1 1) 36000 tz)\<rparr>)"
  by (simp add: gen_vevent_def py_index_def ebind_def Let_def)

lemma timed_remind:
  assumes readable: "readlines files ''mylife.rem'' = Inr (text # rest)"
    and plain: "\<not> py_in ''%\"'' text"
  shows "parse_remind tz fqdn files timed_record []
         = Inr [(''mylife.rem'',
                 [new_vevent\<lparr>dtstart := Some (DateTime (ymd2ord 2024 1 1) 36000 tz),
                    summary := Some ''Meeting'', uid := Some (gen_uid fqdn ''1'' text),
                    location := Some ''Office'',
                    valarm := Some \<lparr>al_trigger = - 600, al_action = ''DISPLAY'',
                                     al_description = ''Meeting''\<rparr>,
                    dtend := Some (DateTime (ymd2ord 2024 1 1) 36000 tz)\<rparr>])]"
proof -
  have t: "py_index (text # rest) 0 = Inr text" by (simp add: py_index_def)
  have r: "parse_record tz fqdn files [] [] timed_record
           = Inr [(''mylife.rem'',
                   [(gen_uid fqdn ''1'' text,
                     \<lparr>ev_dtstart = [DateTime (ymd2ord 2024 1 1) 36000 tz], ev_duration = None,
                      ev_msg = ''Meeting'', ev_location = Some ''Office'',
                      ev_description = None, ev_uid = gen_uid fqdn ''1'' text\<rparr>)])]"
    unfolding parse_record_def timed_fields Let_def timed_index ebind_Inr
    by (simp add: readable ebind_Inr timed_index t timed_line plain)
  show ?thesis
    unfolding parse_remind_def timed_fields
    by (simp add: timed_fields r ebind_Inr timed_vevent)
qed

lemma dated_fields:
  "py_split dated_record ''\<newline>#'' = [dated_record]"
  "py_split (py_rstrip (py_replace dated_record ''\<newline>'' '' '')) '' ''
     = [''#'', ''1'', ''1'', ''mylife.rem'', ''2024/1/1'', ''*'', ''*'', ''600'', ''*'',
        ''Meeting'', ''at'', ''Office'']"
  "dated_record \<noteq> []"
  by code_simp+

lemma dated_index:
  "py_index [''#'', ''1'', ''1'', ''mylife.rem'', ''2024/1/1'', ''*'', ''*'', ''600'', ''*'',
      ''Meeting'', ''at'', ''Office''] 4 = Inr ''2024/1/1''"
  "py_index [''#'', ''1'', ''1'', ''mylife.rem'', ''2024/1/1'', ''*'', ''*'', ''600'', ''*'',
      ''Meeting'', ''at'', ''Office''] 8 = Inr ''*''"
  "py_index [''#'', ''1'', ''1'', ''mylife.rem'', ''2024/1/1'', ''*'', ''*'', ''600'', ''*'',
      ''Meeting'', ''at'', ''Office''] 3 = Inr ''mylife.rem''"
  "py_index [''#'', ''1'', ''1'', ''mylife.rem'', ''2024/1/1'', ''*'', ''*'', ''600'', ''*'',
      ''Meeting'', ''at'', ''Office''] 2 = Inr ''1''"
  "mk_date 2024 1 1 = Inr (Date (ymd2ord 2024 1 1))"
  "add_days (Date (ymd2ord 2024 1 1)) 1 = Inr (Date (ymd2ord 2024 1 2))"
  "py_join '' '' (drop 9 [''#'', ''1'', ''1'', ''mylife.rem'', ''2024/1/1'', ''*'', ''*'', ''600'',
      ''*'', ''Meeting'', ''at'', ''Office'']) = ''Meeting at Office''"
  by code_simp+

lemma dated_line:
  "parse_remind_line tz fqdn
     [''#'', ''1'', ''1'', ''mylife.rem'', ''2024/1/1'', ''*'', ''*'', ''600'', ''*'',
      ''Meeting'', ''at'', ''Office''] text
   = Inr \<lparr>ev_dtstart = [Date (ymd2ord 2024 1 1)], ev_duration = None,
          ev_msg = ''Meeting'', ev_location = Some ''Office'',
          ev_description = (if py_in ''%\"'' text then Some (gen_description text) else None),
          ev_uid = gen_uid fqdn ''1'' text\<rparr>"
  unfolding parse_remind_line_def dated_index timed_index(6-9) ebind_Inr
  by (simp add: dated_index timed_index ebind_Inr timed_message Let_def)

lemma dated_vevent:
  "gen_vevent
     \<lparr>ev_dtstart = [Date (ymd2ord 2024 1 1)], ev_duration = None,
      ev_msg = ''Meeting'', ev_location = Some ''Office'',
      ev_description = None, ev_uid = u\<rparr> new_vevent
   = Inr (new_vevent\<lparr>dtstart := Some (Date (ymd2ord 2024 1 1)),
            summary := Some ''Meeting'', uid := Some u, location := Some ''Office'',
            dtend := Some (Date (ymd2ord 2024 1 2))\<rparr>)"
  by (simp add: gen_vevent_def py_index_def ebind_def Let_def dated_index
      del: add_days.simps)

lemma dated_remind:
  assumes readable: "readlines files ''mylife.rem'' = Inr (text # rest)"
    and plain: "\<not> py_in ''%\"'' text"
  shows "parse_remind tz fqdn files dated_record []
         = Inr [(''mylife.rem'',
                 [new_vevent\<lparr>dtstart := Some (Date (ymd2ord 2024 1 1)),
                    summary := Some ''Meeting'', uid := Some (gen_uid fqdn ''1'' text),
                    location := Some ''Office'',
                    dtend := Some (Date (ymd2ord 2024 1 2))\<rparr>])]"
proof -
  have t: "py_index (text # rest) 0 = Inr text" by (simp add: py_index_def)
  have r: "parse_record tz fqdn files [] [] dated_record
           = Inr [(''mylife.rem'',
                   [(gen_uid fqdn ''1'' text,
                     \<lparr>ev_dtstart = [Date (ymd2ord 2024 1 1)], ev_duration = None,
                      ev_msg = ''Meeting'', ev_location = Some ''Office'',
                      ev_description = None, ev_uid = gen_uid fqdn ''1'' text\<rparr>)])]"
    unfolding parse_record_def dated_fields Let_def dated_index ebind_Inr
    by (simp add: readable ebind_Inr dated_index timed_index t dated_line plain)
  show ?thesis
    unfolding parse_remind_def dated_fields
    by (simp add: dated_fields r ebind_Inr dated_vevent)
qed

lemma mylife_lines:
  "readlines mylife_disk ''mylife.rem''
     = Inr (''REM Jan 1 2024 AT 10:00 MSG Meeting at Office\<newline>'' # [])"
  "\<not> py_in ''%\"'' ''REM Jan 1 2024 AT 10:00 MSG Meeting at Office\<newline>''"
  by code_simp+

text \<open>
  Claim C4, as stated, fails: the record of the claim has its date as month, day and
  year, and \<open>_parse_remind_line\<close> reads field 4 as year, month and day, so that
  \<open>date(1, 1, 2024)\<close> raises ValueError. Parsing that record raises for every time
  zone, host name, disk and input.
\<close>

theorem spec_record_counterexample:
  "(\<forall>tz fqdn files lines. \<exists>e. parse_remind tz fqdn files spec_record lines = Inl e)
   \<and> parse_remind 60 ''example.org'' mylife_disk spec_record [] = Inl ValueError"
proof -
  have "parse_record 60 ''example.org'' mylife_disk [] [] spec_record = Inl ValueError"
    unfolding parse_record_def spec_fields Let_def
    by (simp add: ebind_def spec_line_raises mylife_lines py_index_def timed_index(11))
  then have "parse_remind 60 ''example.org'' mylife_disk spec_record [] = Inl ValueError"
    unfolding parse_remind_def spec_fields
    by (simp add: spec_fields ebind_Inl)
  with spec_remind_raises show ?thesis by blast
qed

text \<open>
  Claim C4, amended. Let line 1 of \<open>mylife.rem\<close> be readable and have no description
  marker \<open>%"\<close>. The record \<open># 1 1 mylife.rem 2024/1/1 * * * 600 10:00am Meeting at Office\<close>
  (field 4 the date as year, month and day; field 7 the duration in minutes or \<open>*\<close>;
  field 8 the time of day in minutes or \<open>*\<close>; field 9 passed over when field 8 is a
  time; the message from field 10 on) parses into exactly one timed event with the
  summary \<open>Meeting\<close>, the location \<open>Office\<close>, the start 2024-01-01 10:00 in the local
  time zone, a display alarm ten minutes before, an end equal to the start and no
  duration. The record of the claim with only its date put right,
  \<open># 1 1 mylife.rem 2024/1/1 * * 600 * Meeting at Office\<close>, has \<open>*\<close> as its time of day
  and parses into exactly one all-day event on 2024-01-01 with the same summary and
  location, without an alarm, that ends the day after.
\<close>

theorem timed_record_event:
  assumes readable: "readlines files ''mylife.rem'' = Inr (text # rest)"
    and plain: "\<not> py_in ''%\"'' text"
  shows "parse_remind tz fqdn files timed_record []
         = Inr [(''mylife.rem'',
                 [new_vevent\<lparr>dtstart := Some (DateTime (ymd2ord 2024 1 1) 36000 tz),
                    summary := Some ''Meeting'', uid := Some (gen_uid fqdn ''1'' text),
                    location := Some ''Office'',
                    valarm := Some \<lparr>al_trigger = - 600, al_action = ''DISPLAY'',
                                     al_description = ''Meeting''\<rparr>,
                    dtend := Some (DateTime (ymd2ord 2024 1 1) 36000 tz)\<rparr>])]
         \<and> parse_remind tz fqdn files dated_record []
         = Inr [(''mylife.rem'',
                 [new_vevent\<lparr>dtstart := Some (Date (ymd2ord 2024 1 1)),
                    summary := Some ''Meeting'', uid := Some (gen_uid fqdn ''1'' text),
                    location := Some ''Office'',
                    dtend := Some (Date (ymd2ord 2024 1 2))\<rparr>])]"
  using timed_remind [OF readable plain] dated_remind [OF readable plain] by simp

theorem timed_record_event_witness:
  "parse_remind 60 ''example.org'' mylife_disk timed_record []
     = Inr [(''mylife.rem'',
             [new_vevent\<lparr>dtstart := Some (DateTime (ymd2ord 2024 1 1) 36000 60),
                summary := Some ''Meeting'',
                uid := Some (gen_uid ''example.org'' ''1''
                               ''REM Jan 1 2024 AT 10:00 MSG Meeting at Office\<newline>''),
                location := Some ''Office'',
                valarm := Some \<lparr>al_trigger = - 600, al_action = ''DISPLAY'',
                                 al_description = ''Meeting''\<rparr>,
                dtend := Some (DateTime (ymd2ord 2024 1 1) 36000 60)\<rparr>])]
   \<and> parse_remind 60 ''example.org'' mylife_disk dated_record []
     = Inr [(''mylife.rem'',
             [new_vevent\<lparr>dtstart := Some (Date (ymd2ord 2024 1 1)),
                summary := Some ''Meeting'',
                uid := Some (gen_uid ''example.org'' ''1''
                               ''REM Jan 1 2024 AT 10:00 MSG Meeting at Office\<newline>''),
                location := Some ''Office'',
                dtend := Some (Date (ymd2ord 2024 1 2))\<rparr>])]"
  by (rule timed_record_event [OF mylife_lines])

subsection \<open>Messages and descriptions\<close>

































end
